theory Spec2Isabelle
  imports Complex_Main "HOL-Library.Multiset"
begin

section \<open>Data model (agents/models.py)\<close>

text \<open>
  Python strings are modelled as \<open>string\<close>, one \<open>char\<close> per code point, which covers the
  code points below 256. Relevance scores are Python floats; they are modelled as real
  numbers, so the not-a-number value is outside the model.
\<close>

text \<open>
  The metadata dictionary is an association list, read with \<open>map_of\<close> as \<open>dict.get\<close>
  reads it; its values are taken to be strings.
\<close>

type_synonym metadata = "(string \<times> string) list"

record Document =
  content :: string
  metadata :: metadata

record RelevanceScore =
  score :: real
  is_relevant :: bool

record ReferenceLink =
  title :: string
  url :: string

record RelevantDocument =
  content_preview :: string
  doc_score :: real
  doc_url :: string

record QueryResult =
  final_response :: string
  reference_links :: "ReferenceLink list"
  relevant_docs :: "RelevantDocument list"

record WebSearchResult =
  knowledge :: string
  sources :: "ReferenceLink list"

text \<open>
  \<open>Document.preview\<close>:
  \<^verbatim>\<open>return f"{self.content[:max_length]}..." if len(self.content) > max_length else self.content\<close>
  A slice beyond the end of a Python string is the whole string, as \<open>take\<close> is.
\<close>

definition preview_len :: "nat \<Rightarrow> Document \<Rightarrow> string" where
  "preview_len max_length d =
     (if length (content d) > max_length then take max_length (content d) @ ''...''
      else content d)"

definition preview :: "Document \<Rightarrow> string" where
  "preview d = preview_len 200 d"

section \<open>Python built-ins used by the agents\<close>

text \<open>
  \<open>max(iterable)\<close> keeps the first item and replaces it only by a strictly greater one;
  the caller checks for the empty list first.
\<close>

fun py_max_from :: "real \<Rightarrow> real list \<Rightarrow> real" where
  "py_max_from m [] = m"
| "py_max_from m (x # xs) = py_max_from (if x > m then x else m) xs"

text \<open>
  \<open>max(iterable, key=f)\<close>: the first item with the greatest key is returned; \<open>gt\<close> is the
  comparison of the keys.
\<close>

fun py_max_by :: "('k \<Rightarrow> 'k \<Rightarrow> bool) \<Rightarrow> ('a \<Rightarrow> 'k) \<Rightarrow> 'a \<Rightarrow> 'a list \<Rightarrow> 'a" where
  "py_max_by gt k m [] = m"
| "py_max_by gt k m (x # xs) = py_max_by gt k (if gt (k x) (k m) then x else m) xs"

text \<open>Tuples \<open>(bool, int)\<close> compare lexicographically, and \<open>False < True\<close>.\<close>

definition key_gt :: "bool \<times> int \<Rightarrow> bool \<times> int \<Rightarrow> bool" where
  "key_gt a b = (case (a, b) of ((a1, a2), (b1, b2)) \<Rightarrow>
     (a1 \<and> \<not> b1) \<or> (a1 = b1 \<and> a2 > b2))"

section \<open>Strategy selection (agents/evaluation_agent.py)\<close>

record thresholds =
  lower_threshold :: real
  upper_threshold :: real

text \<open>The defaults of \<open>__init__\<close>: \<open>lower_threshold=0.3, upper_threshold=0.7\<close>.\<close>

definition default_thresholds :: thresholds where
  "default_thresholds = \<lparr>lower_threshold = 3 / 10, upper_threshold = 7 / 10\<rparr>"

definition determine_retrieval_strategy :: "thresholds \<Rightarrow> RelevanceScore list \<Rightarrow> string" where
  "determine_retrieval_strategy self scores =
     (case scores of
        [] \<Rightarrow> ''web_only''
      | s # rest \<Rightarrow>
          (let max_score = py_max_from (score s) (map score rest) in
           if max_score < lower_threshold self then ''web_only''
           else if max_score \<ge> upper_threshold self then ''kb_only''
           else ''hybrid''))"

section \<open>Selection of the best graded response (Scripts/combined_rag_final.py)\<close>

text \<open>
  A graded response is the tuple \<open>(response, support, utility, metadata)\<close>;
  \<^verbatim>\<open>best_response = max(responses, key=lambda x: (x[1] == 'fully supported', x[2]))\<close>
  raises \<open>ValueError\<close> on the empty list.
\<close>

type_synonym graded = "string \<times> string \<times> int \<times> metadata"

definition grade_key :: "graded \<Rightarrow> bool \<times> int" where
  "grade_key x = (case x of (response, support, utility, md) \<Rightarrow>
     (support = ''fully supported'', utility))"

definition best_response :: "graded list \<Rightarrow> graded option" where
  "best_response responses =
     (case responses of [] \<Rightarrow> None | r # rest \<Rightarrow> Some (py_max_by key_gt grade_key r rest))"

section \<open>String methods\<close>

text \<open>
  \<open>str.strip()\<close> removes leading and trailing whitespace, \<open>str.lower()\<close> maps the cased
  characters to lower case; both are given for the code points below 256.
\<close>

definition isspace :: "char \<Rightarrow> bool" where
  "isspace c = (let n = (of_char c :: nat) in
     (9 \<le> n \<and> n \<le> 13) \<or> (28 \<le> n \<and> n \<le> 32) \<or> n = 133 \<or> n = 160)"

definition py_strip :: "string \<Rightarrow> string" where
  "py_strip s = rev (dropWhile isspace (rev (dropWhile isspace s)))"

definition lower_char :: "char \<Rightarrow> char" where
  "lower_char c = (let n = (of_char c :: nat) in
     if (65 \<le> n \<and> n \<le> 90) \<or> (192 \<le> n \<and> n \<le> 222 \<and> n \<noteq> 215) then char_of (n + 32) else c)"

definition py_lower :: "string \<Rightarrow> string" where
  "py_lower s = map lower_char s"

definition newline :: char where
  "newline = CHR 0x0A"

text \<open>
  \<open>s.split(sep)\<close> for a one-character separator: the result is never empty, and the empty
  string gives the list holding the empty string.
\<close>

fun py_split :: "char \<Rightarrow> string \<Rightarrow> string list" where
  "py_split sep [] = [[]]"
| "py_split sep (c # cs) =
     (if c = sep then [] # py_split sep cs
      else (case py_split sep cs of [] \<Rightarrow> [[c]] | p # ps \<Rightarrow> (c # p) # ps))"

fun py_join :: "string \<Rightarrow> string list \<Rightarrow> string" where
  "py_join sep [] = []"
| "py_join sep [x] = x"
| "py_join sep (x # y # ys) = x @ sep @ py_join sep (y # ys)"

text \<open>
  \<open>sorted(xs, key=k, reverse=True)\<close>: descending by key, items with equal keys in their
  original order.
\<close>

fun insort_desc :: "('a \<Rightarrow> real) \<Rightarrow> 'a \<Rightarrow> 'a list \<Rightarrow> 'a list" where
  "insort_desc k x [] = [x]"
| "insort_desc k x (y # ys) = (if k x \<ge> k y then x # y # ys else y # insort_desc k x ys)"

definition sorted_reverse :: "('a \<Rightarrow> real) \<Rightarrow> 'a list \<Rightarrow> 'a list" where
  "sorted_reverse k xs = foldr (insort_desc k) xs []"

section \<open>External services, exceptions and the record of calls\<close>

datatype exn =
    ServiceError string
  | JSONDecodeError
  | AttributeError
  | TypeError
  | ValidationError
  | ValueError

type_synonym message = "string \<times> string"
type_synonym bytes = "char list"

text \<open>
  The dictionary handed to the generation chain: \<open>query\<close>, \<open>context\<close>, and \<open>history\<close>
  only when a non-empty conversation history was given.
\<close>

record input_data =
  in_query :: string
  in_context :: string
  in_history :: "message list option"

datatype call =
    ImageAnalysis string bytes
  | RetrievalChain string
  | SimilaritySearch string nat
  | RelevanceChain string string
  | NumericalRelevanceChain string string
  | SupportChain string string
  | UtilityChain string string
  | QueryRewriteChain string
  | SearchTool string
  | KnowledgeRefinementChain string
  | GenerationChain input_data

datatype json =
    JNull
  | JBool bool
  | JNum real
  | JStr string
  | JArr "json list"
  | JObj "(string \<times> json) list"

text \<open>
  Every external collaborator is a parameter. A service answers with a value of the type
  its schema fixes, or raises; its answer may depend on the calls made before it.
  \<open>json_loads\<close>, \<open>format_2f\<close> (the format \<open>:.2f\<close>) and \<open>py_str\<close> (the text of a parsed
  value inside an f-string) are library functions without effect.
\<close>

record services =
  image_agent :: "call list \<Rightarrow> string \<Rightarrow> bytes \<Rightarrow> exn + string"
  retrieval_chain :: "call list \<Rightarrow> string \<Rightarrow> exn + string"
  similarity_search :: "call list \<Rightarrow> string \<Rightarrow> nat \<Rightarrow> exn + Document list"
  relevance_chain :: "call list \<Rightarrow> string \<Rightarrow> string \<Rightarrow> exn + string"
  numerical_relevance_chain :: "call list \<Rightarrow> string \<Rightarrow> string \<Rightarrow> exn + real"
  support_chain :: "call list \<Rightarrow> string \<Rightarrow> string \<Rightarrow> exn + string"
  utility_chain :: "call list \<Rightarrow> string \<Rightarrow> string \<Rightarrow> exn + int"
  query_rewrite_chain :: "call list \<Rightarrow> string \<Rightarrow> exn + string"
  search_tool :: "call list \<Rightarrow> string \<Rightarrow> exn + string"
  knowledge_refinement_chain :: "call list \<Rightarrow> string \<Rightarrow> exn + string"
  generation_chain :: "call list \<Rightarrow> input_data \<Rightarrow> exn + string"
  json_loads :: "string \<Rightarrow> exn + json"
  format_2f :: "real \<Rightarrow> string"
  py_str :: "json \<Rightarrow> string"

text \<open>
  A computation takes the calls made so far and returns them extended, with its value or
  the exception it raised.
\<close>

type_synonym 'a eff = "call list \<Rightarrow> call list \<times> (exn + 'a)"

definition ret :: "'a \<Rightarrow> 'a eff" where
  "ret x = (\<lambda>t. (t, Inr x))"

definition lift :: "exn + 'a \<Rightarrow> 'a eff" where
  "lift r = (\<lambda>t. (t, r))"

definition bind_eff :: "'a eff \<Rightarrow> ('a \<Rightarrow> 'b eff) \<Rightarrow> 'b eff" where
  "bind_eff m f = (\<lambda>t. case m t of (t', Inl e) \<Rightarrow> (t', Inl e) | (t', Inr x) \<Rightarrow> f x t')"

definition invoke :: "call \<Rightarrow> (call list \<Rightarrow> exn + 'a) \<Rightarrow> 'a eff" where
  "invoke c service = (\<lambda>t. (t @ [c], service t))"

section \<open>Retrieval agent (agents/retrieval_agent.py)\<close>

definition top_k :: nat where
  "top_k = 3"

definition should_retrieve :: "services \<Rightarrow> string \<Rightarrow> bool eff" where
  "should_retrieve sv query =
     bind_eff (invoke (RetrievalChain query) (\<lambda>t. retrieval_chain sv t query)) (\<lambda>response.
       let retrieval_decision = py_lower (py_strip response) in
       ret (retrieval_decision = ''yes''))"

definition retrieve_documents :: "services \<Rightarrow> string \<Rightarrow> Document list eff" where
  "retrieve_documents sv query =
     bind_eff (invoke (SimilaritySearch query top_k) (\<lambda>t. similarity_search sv t query top_k))
       (\<lambda>raw_docs. ret raw_docs)"

definition retrieval_agent_run :: "services \<Rightarrow> string \<Rightarrow> (bool \<times> Document list) eff" where
  "retrieval_agent_run sv query =
     bind_eff (should_retrieve sv query) (\<lambda>should.
       if \<not> should then ret (False, [])
       else bind_eff (retrieve_documents sv query) (\<lambda>documents. ret (True, documents)))"

section \<open>Evaluation agent (agents/evaluation_agent.py)\<close>

fun evaluate_relevance :: "services \<Rightarrow> string \<Rightarrow> Document list \<Rightarrow> RelevanceScore list eff" where
  "evaluate_relevance sv query [] = ret []"
| "evaluate_relevance sv query (doc # docs) =
     bind_eff (invoke (RelevanceChain query (content doc))
                 (\<lambda>t. relevance_chain sv t query (content doc))) (\<lambda>response.
     let binary_relevance = py_lower (py_strip response) in
     bind_eff (invoke (NumericalRelevanceChain query (content doc))
                 (\<lambda>t. numerical_relevance_chain sv t query (content doc))) (\<lambda>numerical_score.
     bind_eff (evaluate_relevance sv query docs) (\<lambda>results.
       ret (\<lparr>score = numerical_score, is_relevant = (binary_relevance = ''relevant'')\<rparr>
            # results))))"

definition evaluation_agent_run ::
  "services \<Rightarrow> thresholds \<Rightarrow> string \<Rightarrow> Document list \<Rightarrow> (RelevanceScore list \<times> string) eff" where
  "evaluation_agent_run sv self query documents =
     bind_eff (evaluate_relevance sv query documents) (\<lambda>relevance_scores.
       ret (relevance_scores, determine_retrieval_strategy self relevance_scores))"

section \<open>Web search agent (agents/web\_search\_agent.py)\<close>

definition rewrite_query :: "services \<Rightarrow> string \<Rightarrow> string eff" where
  "rewrite_query sv query =
     bind_eff (invoke (QueryRewriteChain query) (\<lambda>t. query_rewrite_chain sv t query))
       (\<lambda>rewritten. ret (py_strip rewritten))"

definition extract_knowledge :: "services \<Rightarrow> string \<Rightarrow> string list eff" where
  "extract_knowledge sv document =
     bind_eff (invoke (KnowledgeRefinementChain document)
                 (\<lambda>t. knowledge_refinement_chain sv t document)) (\<lambda>result.
       ret (map py_strip (filter (\<lambda>point. py_strip point \<noteq> []) (py_split newline result))))"

text \<open>Truth value of a parsed value, as \<open>if link:\<close> tests it.\<close>

fun truthy :: "json \<Rightarrow> bool" where
  "truthy JNull = False"
| "truthy (JBool b) = b"
| "truthy (JNum x) = (x \<noteq> 0)"
| "truthy (JStr s) = (s \<noteq> [])"
| "truthy (JArr xs) = (xs \<noteq> [])"
| "truthy (JObj kvs) = (kvs \<noteq> [])"

text \<open>
  The loop of \<open>extract_sources\<close> over a parsed list. An item that is not a dictionary has
  no \<open>get\<close>; \<open>ReferenceLink\<close> accepts strings only for \<open>title\<close> and \<open>url\<close>.
\<close>

fun collect_sources :: "json list \<Rightarrow> exn + ReferenceLink list" where
  "collect_sources [] = Inr []"
| "collect_sources (result # results) =
     (case result of
        JObj kvs \<Rightarrow>
          (let title_v = (case map_of kvs ''title'' of None \<Rightarrow> JStr ''Untitled'' | Some v \<Rightarrow> v);
               link = (case map_of kvs ''link'' of None \<Rightarrow> JStr [] | Some v \<Rightarrow> v) in
           if truthy link then
             (case (title_v, link) of
                (JStr t, JStr l) \<Rightarrow>
                  (case collect_sources results of
                     Inl e \<Rightarrow> Inl e
                   | Inr rest \<Rightarrow> Inr (\<lparr>title = t, url = l\<rparr> # rest))
              | _ \<Rightarrow> Inl ValidationError)
           else collect_sources results)
      | _ \<Rightarrow> Inl AttributeError)"

text \<open>
  \<open>extract_sources\<close>: only \<open>json.JSONDecodeError\<close> is caught. Iterating a dictionary or a
  string yields strings, which have no \<open>get\<close>; the other values are not iterable.
\<close>

definition extract_sources :: "services \<Rightarrow> string \<Rightarrow> exn + ReferenceLink list" where
  "extract_sources sv web_results =
     (case json_loads sv web_results of
        Inl e \<Rightarrow> (if e = JSONDecodeError then Inr [] else Inl e)
      | Inr results \<Rightarrow>
          (case results of
             JArr rs \<Rightarrow> collect_sources rs
           | JObj kvs \<Rightarrow> (if kvs = [] then Inr [] else Inl AttributeError)
           | JStr s \<Rightarrow> (if s = [] then Inr [] else Inl AttributeError)
           | _ \<Rightarrow> Inl TypeError))"

definition web_search_agent_run :: "services \<Rightarrow> string \<Rightarrow> WebSearchResult eff" where
  "web_search_agent_run sv query =
     bind_eff (rewrite_query sv query) (\<lambda>rewritten_query.
     bind_eff (invoke (SearchTool rewritten_query) (\<lambda>t. search_tool sv t rewritten_query))
       (\<lambda>web_results.
     bind_eff (extract_knowledge sv web_results) (\<lambda>key_points.
     let web_knowledge = py_join [newline] key_points in
     bind_eff (lift (extract_sources sv web_results)) (\<lambda>srcs.
       ret \<lparr>knowledge = web_knowledge, sources = srcs\<rparr>))))"

section \<open>Generation agent (agents/generation\_agent.py)\<close>

text \<open>
  The arguments of \<open>GenerationAgent.run\<close> are untyped at run time: the orchestrator passes a
  strategy string on one path and the conversation history in its place on the other.
\<close>

datatype pyarg =
    Str string
  | History "message list"
  | Docs "Document list"
  | NoneArg

definition with_history :: "string \<Rightarrow> string \<Rightarrow> message list option \<Rightarrow> input_data" where
  "with_history q c conversation_history =
     \<lparr>in_query = q, in_context = c,
      in_history = (case conversation_history of
                      None \<Rightarrow> None
                    | Some h \<Rightarrow> (if h = [] then None else Some h))\<rparr>"

definition generate :: "services \<Rightarrow> input_data \<Rightarrow> string eff" where
  "generate sv inp = invoke (GenerationChain inp) (\<lambda>t. generation_chain sv t inp)"

definition kb_sources :: "services \<Rightarrow> (Document \<times> real) list \<Rightarrow> ReferenceLink list" where
  "kb_sources sv sorted_pairs =
     concat (map (\<lambda>(doc, sc).
       (case map_of (metadata doc) ''source_url'' of
          None \<Rightarrow> []
        | Some u \<Rightarrow> (if u = [] then []
                     else [\<lparr>title = ''Document (score: '' @ format_2f sv sc @ '')'', url = u\<rparr>])))
       sorted_pairs)"

definition prepare_kb_context ::
  "services \<Rightarrow> Document list \<Rightarrow> real list \<Rightarrow> string \<times> ReferenceLink list" where
  "prepare_kb_context sv documents scores =
     (let sorted_pairs = sorted_reverse snd (zip documents scores);
          content_parts = map (\<lambda>(doc, sc).
            ''Document (relevance: '' @ format_2f sv sc @ ''):'' @ [newline] @ content doc)
            sorted_pairs
      in (py_join [newline, newline] content_parts, kb_sources sv sorted_pairs))"

text \<open>
  The call \<open>self._prepare_kb_context(query, documents, scores)\<close> on whatever arrives as
  \<open>documents\<close> and \<open>scores\<close>: \<open>zip\<close> refuses \<open>None\<close>; a string or a list of messages is
  paired item by item with the scores, and the first pair fails at \<open>doc.content\<close>; with no
  pair the context is empty and there are no sources.
\<close>

definition kb_context_of ::
  "services \<Rightarrow> pyarg \<Rightarrow> real list option \<Rightarrow> exn + (string \<times> ReferenceLink list)" where
  "kb_context_of sv documents scores =
     (case scores of
        None \<Rightarrow> Inl TypeError
      | Some scs \<Rightarrow>
          (case documents of
             Docs ds \<Rightarrow> Inr (prepare_kb_context sv ds scs)
           | Str s \<Rightarrow> (if s = [] \<or> scs = [] then Inr ([], []) else Inl AttributeError)
           | History h \<Rightarrow> (if h = [] \<or> scs = [] then Inr ([], []) else Inl AttributeError)
           | NoneArg \<Rightarrow> Inl TypeError))"

definition generate_from_kb ::
  "services \<Rightarrow> string \<Rightarrow> pyarg \<Rightarrow> real list option \<Rightarrow> message list option
     \<Rightarrow> (string \<times> ReferenceLink list) eff" where
  "generate_from_kb sv query documents scores conversation_history =
     bind_eff (lift (kb_context_of sv documents scores)) (\<lambda>context_data.
     bind_eff (generate sv (with_history query (fst context_data) conversation_history))
       (\<lambda>response. ret (response, snd context_data)))"

definition generate_from_web ::
  "services \<Rightarrow> string \<Rightarrow> WebSearchResult option \<Rightarrow> message list option
     \<Rightarrow> (string \<times> ReferenceLink list) eff" where
  "generate_from_web sv query web_result conversation_history =
     (case web_result of
        None \<Rightarrow> lift (Inl AttributeError)
      | Some w \<Rightarrow>
          (let sources_text = py_join [newline] (map (\<lambda>s. title s @ '': '' @ url s) (sources w));
               ctx = ''Web search results:'' @ [newline] @ knowledge w @ [newline, newline]
                     @ ''Sources:'' @ [newline] @ sources_text
           in bind_eff (generate sv (with_history query ctx conversation_history))
                (\<lambda>response. ret (response, sources w))))"

definition generate_hybrid ::
  "services \<Rightarrow> string \<Rightarrow> pyarg \<Rightarrow> real list option \<Rightarrow> WebSearchResult option
     \<Rightarrow> message list option \<Rightarrow> (string \<times> ReferenceLink list) eff" where
  "generate_hybrid sv query documents scores web_result conversation_history =
     bind_eff (lift (kb_context_of sv documents scores)) (\<lambda>kb_context.
       case web_result of
         None \<Rightarrow> lift (Inl AttributeError)
       | Some w \<Rightarrow>
           (let combined_context =
                  ''Knowledge Base Information:'' @ [newline] @ fst kb_context
                  @ [newline, newline] @ ''Web Search Information:'' @ [newline] @ knowledge w
            in bind_eff (generate sv (with_history query combined_context conversation_history))
                 (\<lambda>response. ret (response, snd kb_context @ sources w))))"

definition generate_without_context ::
  "services \<Rightarrow> string \<Rightarrow> message list option \<Rightarrow> (string \<times> ReferenceLink list) eff" where
  "generate_without_context sv query conversation_history =
     bind_eff (generate sv (with_history query ''No specific context available.''
                              conversation_history))
       (\<lambda>response. ret (response, []))"

text \<open>
  \<open>GenerationAgent.run(query, strategy, documents=None, scores=None, web_result=None,
  conversation_history=None)\<close>; a strategy that is not one of the three strings takes the
  last branch.
\<close>

definition generation_agent_run ::
  "services \<Rightarrow> string \<Rightarrow> pyarg \<Rightarrow> pyarg \<Rightarrow> real list option \<Rightarrow> WebSearchResult option
     \<Rightarrow> message list option \<Rightarrow> (string \<times> ReferenceLink list) eff" where
  "generation_agent_run sv query strategy documents scores web_result conversation_history =
     (if strategy = Str ''kb_only'' then
        generate_from_kb sv query documents scores conversation_history
      else if strategy = Str ''web_only'' then
        generate_from_web sv query web_result conversation_history
      else if strategy = Str ''hybrid'' then
        generate_hybrid sv query documents scores web_result conversation_history
      else generate_without_context sv query conversation_history)"

section \<open>Orchestrator (agents/orchestrator.py)\<close>

definition process_image :: "services \<Rightarrow> string \<Rightarrow> bytes \<Rightarrow> string eff" where
  "process_image sv query image_bytes =
     invoke (ImageAnalysis query image_bytes) (\<lambda>t. image_agent sv t query image_bytes)"

definition history_arg :: "message list option \<Rightarrow> pyarg" where
  "history_arg conversation_history =
     (case conversation_history of None \<Rightarrow> NoneArg | Some h \<Rightarrow> History h)"

definition collect_relevant_docs ::
  "thresholds \<Rightarrow> Document list \<Rightarrow> real list \<Rightarrow> RelevantDocument list" where
  "collect_relevant_docs self documents scores =
     map (\<lambda>(doc, sc).
            \<lparr>content_preview = preview doc, doc_score = sc,
             doc_url = (case map_of (metadata doc) ''url'' of None \<Rightarrow> ''No URL available'' | Some u \<Rightarrow> u)\<rparr>)
       (filter (\<lambda>(doc, sc). sc \<ge> lower_threshold self) (zip documents scores))"

text \<open>
  \<open>Orchestrator.run\<close>. On the path without retrieval the call is
  \<^verbatim>\<open>self.generation_agent.run(query,conversation_history ,"none")\<close>, so the history arrives
  as \<open>strategy\<close>, the string as \<open>documents\<close>, and \<open>conversation_history\<close> keeps its default.
  \<open>analysed_query\<close> is the block \<open>if image_bytes:\<close>, which replaces the query by the image
  analysis when bytes were given.
\<close>

definition analysed_query :: "services \<Rightarrow> string \<Rightarrow> bytes option \<Rightarrow> string eff" where
  "analysed_query sv query0 image_bytes =
     (case image_bytes of
        None \<Rightarrow> ret query0
      | Some b \<Rightarrow> (if b = [] then ret query0 else process_image sv query0 b))"

definition orchestrator_run ::
  "services \<Rightarrow> thresholds \<Rightarrow> string \<Rightarrow> bytes option \<Rightarrow> message list option \<Rightarrow> QueryResult eff" where
  "orchestrator_run sv self query0 image_bytes conversation_history =
     bind_eff (analysed_query sv query0 image_bytes) (\<lambda>query.
     bind_eff (retrieval_agent_run sv query) (\<lambda>(retrieval_performed, documents).
       if \<not> retrieval_performed then
         bind_eff (generation_agent_run sv query (history_arg conversation_history) (Str ''none'')
                     None None None) (\<lambda>generation_result.
           ret \<lparr>final_response = fst generation_result,
                reference_links = snd generation_result,
                relevant_docs = []\<rparr>)
       else
         bind_eff (evaluation_agent_run sv self query documents) (\<lambda>(relevance_scores, strategy).
         bind_eff (if strategy \<in> {''web_only'', ''hybrid''}
                   then bind_eff (web_search_agent_run sv query) (\<lambda>w. ret (Some w))
                   else ret None) (\<lambda>web_result.
         let scores = map score relevance_scores in
         bind_eff (generation_agent_run sv query (Str strategy)
                     (if strategy \<in> {''kb_only'', ''hybrid''} then Docs documents else NoneArg)
                     (if strategy \<in> {''kb_only'', ''hybrid''} then Some scores else None)
                     (if strategy \<in> {''web_only'', ''hybrid''} then web_result else None)
                     conversation_history) (\<lambda>generation_result.
           ret \<lparr>final_response = fst generation_result,
                reference_links = snd generation_result,
                relevant_docs =
                  sorted_reverse doc_score (collect_relevant_docs self documents scores)\<rparr>)))))"

section \<open>Entry point (main.py)\<close>





section \<open>The single-script pipeline (Scripts/combined\_rag\_final.py)\<close>

record rag_result =
  rag_final_response :: string
  rag_reference_links :: "(json \<times> json) list"
  rag_relevant_docs :: "RelevantDocument list"

text \<open>
  Step 3 of \<open>CombinedRAG.run\<close> asks, for each retrieved context in turn, first for the
  numerical score and then for the binary relevance. The loop is modelled as returning
  one entry \<open>(context, metadata, score, relevance)\<close> per context; the three lists the
  source appends to inside the loop are read off that list.
\<close>

type_synonym judged = "string \<times> metadata \<times> real \<times> string"

fun judge_contexts :: "services \<Rightarrow> string \<Rightarrow> (string \<times> metadata) list \<Rightarrow> judged list eff" where
  "judge_contexts sv query [] = ret []"
| "judge_contexts sv query ((ctx, md) # rest) =
     bind_eff (invoke (NumericalRelevanceChain query ctx)
                 (\<lambda>t. numerical_relevance_chain sv t query ctx)) (\<lambda>sc.
     bind_eff (invoke (RelevanceChain query ctx)
                 (\<lambda>t. relevance_chain sv t query ctx)) (\<lambda>response.
     let relevance = py_lower (py_strip response) in
     bind_eff (judge_contexts sv query rest) (\<lambda>js.
       ret ((ctx, md, sc, relevance) # js))))"

definition rag_relevant_docs_of :: "thresholds \<Rightarrow> judged list \<Rightarrow> RelevantDocument list" where
  "rag_relevant_docs_of self js =
     map (\<lambda>(ctx, md, sc, relevance).
            \<lparr>content_preview = (if length ctx > 200 then take 200 ctx @ ''...'' else ctx),
             doc_score = sc,
             doc_url = (case map_of md ''parent_url'' of None \<Rightarrow> ''No URL available'' | Some u \<Rightarrow> u)\<rparr>)
       (filter (\<lambda>(ctx, md, sc, relevance). sc \<ge> lower_threshold self) js)"

definition eval_scores_of :: "judged list \<Rightarrow> real list" where
  "eval_scores_of js = map (\<lambda>(ctx, md, sc, relevance). sc) js"

definition relevant_contexts_of :: "judged list \<Rightarrow> (string \<times> metadata \<times> real) list" where
  "relevant_contexts_of js =
     map (\<lambda>(ctx, md, sc, relevance). (ctx, md, sc))
       (filter (\<lambda>(ctx, md, sc, relevance). relevance = ''relevant'') js)"

text \<open>\<^verbatim>\<open>max_score = max(eval_scores) if eval_scores else 0\<close>\<close>

definition max_score_of :: "real list \<Rightarrow> real" where
  "max_score_of eval_scores = (case eval_scores of [] \<Rightarrow> 0 | s # ss \<Rightarrow> py_max_from s ss)"

text \<open>The three branches of the \<open>if\<close>/\<open>elif\<close>/\<open>else\<close> on the maximal score.\<close>

datatype action = WebSearch | Combine | SelfRAG

definition choose_action ::
  "thresholds \<Rightarrow> (string \<times> metadata \<times> real) list \<Rightarrow> real list \<Rightarrow> action" where
  "choose_action self relevant_contexts eval_scores =
     (let max_score = max_score_of eval_scores in
      if relevant_contexts = [] \<or> max_score < lower_threshold self then WebSearch
      else if lower_threshold self \<le> max_score \<and> max_score < upper_threshold self then Combine
      else SelfRAG)"

definition knowledge_refinement :: "services \<Rightarrow> string \<Rightarrow> string list eff" where
  "knowledge_refinement sv document = extract_knowledge sv document"

text \<open>
  The sources of \<open>perform_web_search\<close>: pairs \<open>(title, link)\<close> of whatever values the parsed
  items hold; only \<open>json.JSONDecodeError\<close> is caught.
\<close>

fun collect_pairs :: "json list \<Rightarrow> exn + (json \<times> json) list" where
  "collect_pairs [] = Inr []"
| "collect_pairs (result # results) =
     (case result of
        JObj kvs \<Rightarrow>
          (case collect_pairs results of
             Inl e \<Rightarrow> Inl e
           | Inr rest \<Rightarrow>
               Inr (((case map_of kvs ''title'' of None \<Rightarrow> JStr ''Untitled'' | Some v \<Rightarrow> v),
                     (case map_of kvs ''link'' of None \<Rightarrow> JStr [] | Some v \<Rightarrow> v)) # rest))
      | _ \<Rightarrow> Inl AttributeError)"

definition rag_sources :: "services \<Rightarrow> string \<Rightarrow> exn + (json \<times> json) list" where
  "rag_sources sv web_results =
     (case json_loads sv web_results of
        Inl e \<Rightarrow> (if e = JSONDecodeError then Inr [] else Inl e)
      | Inr results \<Rightarrow>
          (case results of
             JArr rs \<Rightarrow> collect_pairs rs
           | JObj kvs \<Rightarrow> (if kvs = [] then Inr [] else Inl AttributeError)
           | JStr s \<Rightarrow> (if s = [] then Inr [] else Inl AttributeError)
           | _ \<Rightarrow> Inl TypeError))"

definition perform_web_search :: "services \<Rightarrow> string \<Rightarrow> (string \<times> (json \<times> json) list) eff" where
  "perform_web_search sv query =
     bind_eff (rewrite_query sv query) (\<lambda>rewritten_query.
     bind_eff (invoke (SearchTool rewritten_query) (\<lambda>t. search_tool sv t rewritten_query))
       (\<lambda>web_results.
     bind_eff (knowledge_refinement sv web_results) (\<lambda>key_points.
     let web_knowledge = py_join [newline] key_points in
     bind_eff (lift (rag_sources sv web_results)) (\<lambda>web_sources.
       ret (web_knowledge, web_sources)))))"

definition linked :: "(json \<times> json) list \<Rightarrow> (json \<times> json) list" where
  "linked web_sources = filter (\<lambda>(t, link). truthy link) web_sources"

text \<open>
  \<^verbatim>\<open>"\n".join([f"{title}: {link}" if link else title for title, link in web_sources])\<close>:
  a bare title that is not a string makes \<open>join\<close> raise.
\<close>

fun web_source_lines :: "services \<Rightarrow> (json \<times> json) list \<Rightarrow> exn + string list" where
  "web_source_lines sv [] = Inr []"
| "web_source_lines sv ((t, link) # rest) =
     (case (if truthy link then Inr (py_str sv t @ '': '' @ py_str sv link)
            else (case t of JStr s \<Rightarrow> Inr s | _ \<Rightarrow> Inl TypeError)) of
        Inl e \<Rightarrow> Inl e
      | Inr line \<Rightarrow> (case web_source_lines sv rest of
                       Inl e \<Rightarrow> Inl e
                     | Inr ls \<Rightarrow> Inr (line # ls)))"

definition answer_from_web :: "services \<Rightarrow> string \<Rightarrow> judged list \<Rightarrow> thresholds \<Rightarrow> rag_result eff" where
  "answer_from_web sv query js self =
     bind_eff (perform_web_search sv query) (\<lambda>(web_knowledge, web_sources).
     bind_eff (lift (web_source_lines sv web_sources)) (\<lambda>ls.
     bind_eff (generate sv
        \<lparr>in_query = query,
         in_context = ''Web search results:'' @ [newline] @ web_knowledge @ [newline, newline]
                      @ ''Sources:'' @ [newline] @ py_join [newline] ls,
         in_history = None\<rparr>) (\<lambda>response.
       ret \<lparr>rag_final_response = response,
            rag_reference_links = linked web_sources,
            rag_relevant_docs = rag_relevant_docs_of self js\<rparr>)))"

definition by_score_gt :: "real \<Rightarrow> real \<Rightarrow> bool" where
  "by_score_gt a b = (a > b)"

definition answer_combined ::
  "services \<Rightarrow> string \<Rightarrow> judged list \<Rightarrow> thresholds \<Rightarrow> (string \<times> metadata \<times> real) list
     \<Rightarrow> rag_result eff" where
  "answer_combined sv query js self relevant_contexts =
     (case relevant_contexts of
        [] \<Rightarrow> lift (Inl ValueError)
      | c # cs \<Rightarrow>
          (let best_context = py_max_by by_score_gt (\<lambda>(ctx, md, sc). sc) c cs;
               best_md = fst (snd best_context);
               doc_url = (case map_of best_md ''url'' of None \<Rightarrow> ''No URL available'' | Some u \<Rightarrow> u)
           in
           bind_eff (knowledge_refinement sv (fst best_context)) (\<lambda>points.
           let retrieved_knowledge = py_join [newline] points in
           bind_eff (perform_web_search sv query) (\<lambda>(web_knowledge, web_sources).
           let combined_context = ''Retrieved knowledge:'' @ [newline] @ retrieved_knowledge
                 @ [newline, newline] @ ''Web knowledge:'' @ [newline] @ web_knowledge;
               sources_text = ''Retrieved from database: '' @ doc_url @ [newline]
                 @ py_join [newline]
                     (map (\<lambda>(t, link).
                        if truthy link then ''Web: '' @ py_str sv t @ '': '' @ py_str sv link
                        else ''Web: '' @ py_str sv t) web_sources)
           in
           bind_eff (generate sv
              \<lparr>in_query = query,
               in_context = combined_context @ [newline, newline] @ ''Sources:'' @ [newline]
                            @ sources_text,
               in_history = None\<rparr>) (\<lambda>response.
             ret \<lparr>rag_final_response = response,
                  rag_reference_links =
                    (if doc_url \<noteq> ''No URL available''
                     then [(JStr ''Retrieved document'', JStr doc_url)] else [])
                    @ linked web_sources,
                  rag_relevant_docs = rag_relevant_docs_of self js\<rparr>)))))"

text \<open>Steps 4 to 6: one generated and graded response per relevant context.\<close>

fun grade_responses ::
  "services \<Rightarrow> string \<Rightarrow> (string \<times> metadata \<times> real) list \<Rightarrow> graded list eff" where
  "grade_responses sv query [] = ret []"
| "grade_responses sv query ((ctx, md, sc) # rest) =
     bind_eff (generate sv \<lparr>in_query = query, in_context = ctx, in_history = None\<rparr>) (\<lambda>response.
     bind_eff (invoke (SupportChain response ctx) (\<lambda>t. support_chain sv t response ctx))
       (\<lambda>support_raw.
     let support = py_lower (py_strip support_raw) in
     bind_eff (invoke (UtilityChain query response) (\<lambda>t. utility_chain sv t query response))
       (\<lambda>utility.
     bind_eff (grade_responses sv query rest) (\<lambda>responses.
       ret ((response, support, utility, md) # responses)))))"

definition answer_self_rag ::
  "services \<Rightarrow> string \<Rightarrow> judged list \<Rightarrow> thresholds \<Rightarrow> (string \<times> metadata \<times> real) list
     \<Rightarrow> rag_result eff" where
  "answer_self_rag sv query js self relevant_contexts =
     bind_eff (grade_responses sv query relevant_contexts) (\<lambda>responses.
       case best_response responses of
         None \<Rightarrow> lift (Inl ValueError)
       | Some (response, support, utility, md) \<Rightarrow>
           (let source_url = (case map_of md ''url'' of None \<Rightarrow> ''No source URL available'' | Some u \<Rightarrow> u)
            in ret \<lparr>rag_final_response = response,
                    rag_reference_links =
                      (if source_url \<noteq> ''No source URL available''
                       then [(JStr ''Primary source'', JStr source_url)] else []),
                    rag_relevant_docs = rag_relevant_docs_of self js\<rparr>))"

record rag_config = thresholds +
  rag_top_k :: nat

definition combined_rag_run :: "services \<Rightarrow> rag_config \<Rightarrow> string \<Rightarrow> rag_result eff" where
  "combined_rag_run sv self query =
     bind_eff (invoke (RetrievalChain query) (\<lambda>t. retrieval_chain sv t query)) (\<lambda>response.
     let retrieval_decision = py_lower (py_strip response) in
     if retrieval_decision = ''yes'' then
       bind_eff (invoke (SimilaritySearch query (rag_top_k self))
                   (\<lambda>t. similarity_search sv t query (rag_top_k self))) (\<lambda>docs.
       let contexts = map (\<lambda>doc. (content doc, metadata doc)) docs in
       bind_eff (judge_contexts sv query contexts) (\<lambda>js.
       let relevant_contexts = relevant_contexts_of js;
           eval_scores = eval_scores_of js;
           th = thresholds.truncate self
       in case choose_action th relevant_contexts eval_scores of
            WebSearch \<Rightarrow> answer_from_web sv query js th
          | Combine \<Rightarrow> answer_combined sv query js th relevant_contexts
          | SelfRAG \<Rightarrow> answer_self_rag sv query js th relevant_contexts))
     else
       bind_eff (generate sv \<lparr>in_query = query, in_context = ''No retrieval necessary.'',
                              in_history = None\<rparr>) (\<lambda>response.
         ret \<lparr>rag_final_response = response, rag_reference_links = [],
              rag_relevant_docs = []\<rparr>))"

section \<open>Calls to the adapters\<close>

text \<open>
  The calls that go to the document store and those the web search agent makes, and the
  dictionary that \<open>generate_without_context\<close> hands to the generation chain when no history
  reaches it.
\<close>

fun document_store_call :: "call \<Rightarrow> bool" where
  "document_store_call (SimilaritySearch q k) = True"
| "document_store_call c = False"

fun web_search_call :: "call \<Rightarrow> bool" where
  "web_search_call (QueryRewriteChain q) = True"
| "web_search_call (SearchTool q) = True"
| "web_search_call (KnowledgeRefinementChain d) = True"
| "web_search_call c = False"

definition no_context_input :: "string \<Rightarrow> input_data" where
  "no_context_input query =
     \<lparr>in_query = query, in_context = ''No specific context available.'', in_history = None\<rparr>"

section \<open>Example services\<close>

text \<open>
  Two retrieved documents and services with fixed answers, used to run the pipelines on
  concrete inputs: the gate answers yes, \<open>doc_a\<close> is judged relevant with score 0.9 and
  \<open>doc_b\<close> irrelevant with score 0.5, and the web results are not parseable.
\<close>

definition doc_a :: Document where
  "doc_a = \<lparr>content = ''alpha'',
            metadata = [(''url'', ''http://a''), (''source_url'', ''http://a/src'')]\<rparr>"

definition doc_b :: Document where
  "doc_b = \<lparr>content = ''beta'', metadata = []\<rparr>"

definition stub :: services where
  "stub = \<lparr>image_agent = (\<lambda>t q b. Inr q),
     retrieval_chain = (\<lambda>t q. Inr ''Yes''),
     similarity_search = (\<lambda>t q k. Inr [doc_b, doc_a]),
     relevance_chain = (\<lambda>t q c. Inr (if c = ''alpha'' then ''Relevant'' else ''Irrelevant'')),
     numerical_relevance_chain = (\<lambda>t q c. Inr (if c = ''alpha'' then 9 / 10 else 5 / 10)),
     support_chain = (\<lambda>t r c. Inr ''Fully supported''),
     utility_chain = (\<lambda>t q r. Inr 4),
     query_rewrite_chain = (\<lambda>t q. Inr q),
     search_tool = (\<lambda>t q. Inr ''raw''),
     knowledge_refinement_chain = (\<lambda>t d. Inr ''- point''),
     generation_chain = (\<lambda>t i. Inr ''answer''),
     json_loads = (\<lambda>s. Inl JSONDecodeError),
     format_2f = (\<lambda>x. if x = 9 / 10 then ''0.90'' else if x = 5 / 10 then ''0.50'' else ''0.00''),
     py_str = (\<lambda>j. [])\<rparr>"

text \<open>
  The defaults of \<open>CombinedRAG\<close>, services whose refinement stage raises while every score
  lies between the thresholds (so that the web search takes place), and services that give
  every document a high score and judge none of them relevant.
\<close>

definition rag_defaults :: rag_config where
  "rag_defaults = \<lparr>lower_threshold = 3 / 10, upper_threshold = 7 / 10, rag_top_k = 3\<rparr>"

definition stub_refinement_raises :: services where
  "stub_refinement_raises =
     stub\<lparr>numerical_relevance_chain := (\<lambda>t q c. Inr (5 / 10)),
          knowledge_refinement_chain := (\<lambda>t d. Inl (ServiceError ''refinement failed''))\<rparr>"

definition stub_none_relevant :: services where
  "stub_none_relevant =
     stub\<lparr>relevance_chain := (\<lambda>t q c. Inr ''Irrelevant''),
          numerical_relevance_chain := (\<lambda>t q c. Inr (9 / 10))\<rparr>"

text \<open>The dictionaries handed to the generation chain, in the order of the calls.\<close>

fun generation_input :: "call \<Rightarrow> input_data list" where
  "generation_input (GenerationChain i) = [i]"
| "generation_input c = []"

definition generation_inputs :: "call list \<Rightarrow> input_data list" where
  "generation_inputs t = concat (map generation_input t)"

section \<open>Properties\<close>

lemma py_max_from_fold: "py_max_from m xs = fold max xs m"
  by (induction xs arbitrary: m) (simp_all add: max_def not_less)

lemma py_max_from_Max: "py_max_from m xs = Max (set (m # xs))"
  by (simp only: py_max_from_fold Max.set_eq_fold)

subsection \<open>Strategy selection\<close>

lemma strategy_by_Max:
  assumes "S \<noteq> []"
  shows "determine_retrieval_strategy self S =
     (if Max (score ` set S) < lower_threshold self then ''web_only''
      else if Max (score ` set S) \<ge> upper_threshold self then ''kb_only'' else ''hybrid'')"
proof -
  obtain s rest where S: "S = s # rest" using assms by (cases S) auto
  have "py_max_from (score s) (map score rest) = Max (score ` set S)"
    unfolding S py_max_from_Max by simp
  then show ?thesis unfolding S determine_retrieval_strategy_def by (simp add: Let_def)
qed

text \<open>
  Claim C1. The empty list of scores gives web-only. For a non-empty list and
  \<open>lower_threshold < upper_threshold\<close>, the strategy is web-only when the greatest score
  is below the lower threshold, hybrid when it lies between the two thresholds (lower
  included), and knowledge-base-only when it reaches the upper threshold.
\<close>

theorem determine_retrieval_strategy_bands:
  "determine_retrieval_strategy self [] = ''web_only'' \<and>
   (S \<noteq> [] \<and> lower_threshold self < upper_threshold self \<longrightarrow>
      (Max (score ` set S) < lower_threshold self
         \<longrightarrow> determine_retrieval_strategy self S = ''web_only'') \<and>
      (lower_threshold self \<le> Max (score ` set S) \<and> Max (score ` set S) < upper_threshold self
         \<longrightarrow> determine_retrieval_strategy self S = ''hybrid'') \<and>
      (Max (score ` set S) \<ge> upper_threshold self
         \<longrightarrow> determine_retrieval_strategy self S = ''kb_only''))"
proof -
  have e: "determine_retrieval_strategy self [] = ''web_only''"
    by (simp add: determine_retrieval_strategy_def)
  have "(Max (score ` set S) < lower_threshold self
         \<longrightarrow> determine_retrieval_strategy self S = ''web_only'') \<and>
      (lower_threshold self \<le> Max (score ` set S) \<and> Max (score ` set S) < upper_threshold self
         \<longrightarrow> determine_retrieval_strategy self S = ''hybrid'') \<and>
      (Max (score ` set S) \<ge> upper_threshold self
         \<longrightarrow> determine_retrieval_strategy self S = ''kb_only'')"
    if ne: "S \<noteq> []" and lt: "lower_threshold self < upper_threshold self"
  proof -
    define m where "m = Max (score ` set S)"
    have eq: "determine_retrieval_strategy self S =
       (if m < lower_threshold self then ''web_only''
        else if m \<ge> upper_threshold self then ''kb_only'' else ''hybrid'')"
      unfolding m_def by (rule strategy_by_Max[OF ne])
    show ?thesis unfolding m_def[symmetric] eq using lt by auto
  qed
  with e show ?thesis by blast
qed

theorem determine_retrieval_strategy_bands_witness:
  "determine_retrieval_strategy default_thresholds [\<lparr>score = 2 / 10, is_relevant = False\<rparr>]
     = ''web_only'' \<and>
   determine_retrieval_strategy default_thresholds [\<lparr>score = 5 / 10, is_relevant = False\<rparr>]
     = ''hybrid'' \<and>
   determine_retrieval_strategy default_thresholds
     [\<lparr>score = 1 / 10, is_relevant = True\<rparr>, \<lparr>score = 9 / 10, is_relevant = False\<rparr>]
     = ''kb_only''"
  using
    determine_retrieval_strategy_bands
      [of default_thresholds "[\<lparr>score = 2 / 10, is_relevant = False\<rparr>]"]
    determine_retrieval_strategy_bands
      [of default_thresholds "[\<lparr>score = 5 / 10, is_relevant = False\<rparr>]"]
    determine_retrieval_strategy_bands
      [of default_thresholds
          "[\<lparr>score = 1 / 10, is_relevant = True\<rparr>, \<lparr>score = 9 / 10, is_relevant = False\<rparr>]"]
  by (simp add: default_thresholds_def)

subsection \<open>Computations and their results\<close>

lemma bind_eff_Inr:
  assumes "bind_eff m f t = (t', Inr y)"
  obtains t1 x where "m t = (t1, Inr x)" and "f x t1 = (t', Inr y)"
  using assms by (auto simp: bind_eff_def split: prod.splits sum.splits)

subsection \<open>Sorting in descending order\<close>

lemma set_insort_desc: "set (insort_desc k x ys) = insert x (set ys)"
  by (induction ys) auto

lemma set_sorted_reverse: "set (sorted_reverse k xs) = set xs"
  by (induction xs) (simp_all add: sorted_reverse_def set_insort_desc)

lemma sorted_insort_desc:
  "sorted_wrt (\<lambda>a b. k a \<ge> k b) ys \<Longrightarrow> sorted_wrt (\<lambda>a b. k a \<ge> k b) (insort_desc k x ys)"
  by (induction ys) (auto simp: set_insort_desc)

lemma sorted_sorted_reverse: "sorted_wrt (\<lambda>a b. k a \<ge> k b) (sorted_reverse k xs)"
  by (induction xs) (simp_all add: sorted_reverse_def sorted_insort_desc)

subsection \<open>The relevant documents of a result\<close>

lemma collect_relevant_docs_score:
  "d \<in> set (collect_relevant_docs self documents scores) \<Longrightarrow> doc_score d \<ge> lower_threshold self"
  by (auto simp: collect_relevant_docs_def)

lemma preview_length: "length (preview d) \<le> 203"
  by (simp add: preview_def preview_len_def)

lemma collect_relevant_docs_preview:
  "d \<in> set (collect_relevant_docs self documents scores) \<Longrightarrow> length (content_preview d) \<le> 203"
  by (auto simp: collect_relevant_docs_def preview_length)

lemma orchestrator_run_relevant_docs:
  assumes "orchestrator_run sv self query0 image_bytes h t = (t', Inr r)"
  shows "relevant_docs r = [] \<or>
         (\<exists>documents scores. relevant_docs r =
             sorted_reverse doc_score (collect_relevant_docs self documents scores))"
  using assms unfolding orchestrator_run_def
  by (auto elim!: bind_eff_Inr simp: Let_def ret_def split: prod.splits if_splits) blast+

text \<open>The run of the orchestrator on the example services: the strategy is \<open>kb_only\<close>.\<close>

lemma stub_run:
  "orchestrator_run stub default_thresholds ''q'' None None [] =
   ([RetrievalChain ''q'', SimilaritySearch ''q'' 3,
     RelevanceChain ''q'' ''beta'', NumericalRelevanceChain ''q'' ''beta'',
     RelevanceChain ''q'' ''alpha'', NumericalRelevanceChain ''q'' ''alpha'',
     GenerationChain
       \<lparr>in_query = ''q'',
        in_context = ''Document (relevance: 0.90):'' @ [newline] @ ''alpha'' @ [newline, newline]
                     @ ''Document (relevance: 0.50):'' @ [newline] @ ''beta'',
        in_history = None\<rparr>],
    Inr \<lparr>final_response = ''answer'',
         reference_links = [\<lparr>title = ''Document (score: 0.90)'', url = ''http://a/src''\<rparr>],
         relevant_docs =
           [\<lparr>content_preview = ''alpha'', doc_score = 9 / 10, doc_url = ''http://a''\<rparr>,
            \<lparr>content_preview = ''beta'', doc_score = 5 / 10, doc_url = ''No URL available''\<rparr>]\<rparr>)"
  by code_simp

text \<open>
  Claim C3. In every result that \<open>Orchestrator.run\<close> returns, the relevant documents are
  sorted by score in descending order, and each of them has a score of at least the lower
  threshold.
\<close>

theorem relevant_docs_sorted_above_lower:
  assumes "orchestrator_run sv self query0 image_bytes h t = (t', Inr r)"
  shows "sorted_wrt (\<lambda>a b. doc_score a \<ge> doc_score b) (relevant_docs r) \<and>
         (\<forall>d \<in> set (relevant_docs r). doc_score d \<ge> lower_threshold self)"
  using orchestrator_run_relevant_docs[OF assms]
  by (auto simp: sorted_sorted_reverse set_sorted_reverse collect_relevant_docs_score)

theorem relevant_docs_sorted_above_lower_witness:
  "sorted_wrt (\<lambda>a b. doc_score a \<ge> doc_score b)
     [\<lparr>content_preview = ''alpha'', doc_score = 9 / 10, doc_url = ''http://a''\<rparr>,
      \<lparr>content_preview = ''beta'', doc_score = 5 / 10, doc_url = ''No URL available''\<rparr>] \<and>
   list_all (\<lambda>d. doc_score d \<ge> lower_threshold default_thresholds)
     [\<lparr>content_preview = ''alpha'', doc_score = 9 / 10, doc_url = ''http://a''\<rparr>,
      \<lparr>content_preview = ''beta'', doc_score = 5 / 10, doc_url = ''No URL available''\<rparr>]"
  using relevant_docs_sorted_above_lower[OF stub_run] by simp

text \<open>
  Claim C9. \<open>preview\<close> returns the content unchanged when it has at most 200 characters and
  otherwise its first 200 characters followed by three dots; a preview has at most 203
  characters, and so has every \<open>content_preview\<close> among the relevant documents of a result
  of \<open>Orchestrator.run\<close>.
\<close>

theorem preview_at_most_203:
  "preview d = (if length (content d) \<le> 200 then content d else take 200 (content d) @ ''...'') \<and>
   length (preview d) \<le> 203 \<and>
   (orchestrator_run sv self query0 image_bytes h t = (t', Inr r) \<longrightarrow>
     (\<forall>rd \<in> set (relevant_docs r). length (content_preview rd) \<le> 203))"
proof (intro conjI impI)
  show "preview d = (if length (content d) \<le> 200 then content d else take 200 (content d) @ ''...'')"
    by (simp add: preview_def preview_len_def)
  show "length (preview d) \<le> 203" by (rule preview_length)
  assume "orchestrator_run sv self query0 image_bytes h t = (t', Inr r)"
  from orchestrator_run_relevant_docs[OF this]
  show "\<forall>rd \<in> set (relevant_docs r). length (content_preview rd) \<le> 203"
    by (auto simp: set_sorted_reverse collect_relevant_docs_preview)
qed

theorem preview_at_most_203_witness:
  "preview \<lparr>content = replicate 201 (CHR ''x''), metadata = []\<rparr>
     = replicate 200 (CHR ''x'') @ ''...'' \<and>
   preview doc_a = ''alpha'' \<and>
   list_all (\<lambda>rd. length (content_preview rd) \<le> 203)
     [\<lparr>content_preview = ''alpha'', doc_score = 9 / 10, doc_url = ''http://a''\<rparr>,
      \<lparr>content_preview = ''beta'', doc_score = 5 / 10, doc_url = ''No URL available''\<rparr>]"
  using preview_at_most_203[of "\<lparr>content = replicate 201 (CHR ''x''), metadata = []\<rparr>"
              stub default_thresholds "''q''" None None "[]"]
        preview_at_most_203[of doc_a stub default_thresholds "''q''" None None "[]"]
        stub_run
  by (simp add: doc_a_def)


subsection \<open>Selection of the best graded response\<close>

lemma key_gt_irrefl: "\<not> key_gt a a"
  by (auto simp: key_gt_def split: prod.splits)

lemma key_gt_trans: "key_gt a b \<Longrightarrow> key_gt b c \<Longrightarrow> key_gt a c"
  by (auto simp: key_gt_def split: prod.splits)

lemma key_gt_asym: "key_gt a b \<Longrightarrow> \<not> key_gt b a"
  by (auto simp: key_gt_def split: prod.splits)

lemma key_gt_above: "\<not> key_gt a b \<Longrightarrow> key_gt c b \<Longrightarrow> key_gt c a"
  by (auto simp: key_gt_def split: prod.splits)

lemma py_max_by_snoc:
  "py_max_by gt k m (xs @ [x]) =
     (if gt (k x) (k (py_max_by gt k m xs)) then x else py_max_by gt k m xs)"
  by (induction xs arbitrary: m) simp_all

lemma py_max_by_first_greatest:
  "\<exists>pre post. m # xs = pre @ py_max_by key_gt k m xs # post \<and>
     (\<forall>r \<in> set pre. key_gt (k (py_max_by key_gt k m xs)) (k r)) \<and>
     (\<forall>r \<in> set post. \<not> key_gt (k r) (k (py_max_by key_gt k m xs)))"
proof (induction xs rule: rev_induct)
  case Nil
  have "[m] = [] @ m # []" by simp
  then show ?case by force
next
  case (snoc x xs)
  define b where "b = py_max_by key_gt k m xs"
  from snoc obtain pre post where
    dec: "m # xs = pre @ b # post"
    and pre: "\<forall>r \<in> set pre. key_gt (k b) (k r)"
    and post: "\<forall>r \<in> set post. \<not> key_gt (k r) (k b)"
    unfolding b_def by blast
  show ?case
  proof (cases "key_gt (k x) (k b)")
    case True
    then have res: "py_max_by key_gt k m (xs @ [x]) = x"
      by (simp add: py_max_by_snoc b_def)
    have d: "m # xs @ [x] = (pre @ b # post) @ x # []" using dec by simp
    have "\<forall>r \<in> set (pre @ b # post). key_gt (k x) (k r)"
      using True pre post by (auto intro: key_gt_trans key_gt_above)
    with d show ?thesis unfolding res by (metis empty_iff list.set(1))
  next
    case False
    then have res: "py_max_by key_gt k m (xs @ [x]) = b"
      by (simp add: py_max_by_snoc b_def)
    have d: "m # xs @ [x] = pre @ b # (post @ [x])" using dec by simp
    have "\<forall>r \<in> set (post @ [x]). \<not> key_gt (k r) (k b)" using False post by auto
    with d pre show ?thesis unfolding res by blast
  qed
qed

text \<open>
  Claim C4. For a non-empty list of graded responses the selected response is the first one
  whose key \<open>(support = 'fully supported', utility)\<close> is greatest in the lexicographic order:
  every earlier response has a strictly smaller key and no later one has a greater key. So
  a fully supported response is selected whenever there is one, whatever the utilities,
  and within the same support tier no response has a higher utility than the selected one.
\<close>

theorem best_response_first_greatest:
  assumes "responses \<noteq> []"
  shows "\<exists>best pre post.
     best_response responses = Some best \<and> responses = pre @ best # post \<and>
     (\<forall>r \<in> set pre. key_gt (grade_key best) (grade_key r)) \<and>
     (\<forall>r \<in> set post. \<not> key_gt (grade_key r) (grade_key best)) \<and>
     (\<forall>r \<in> set responses.
        (fst (snd r) = ''fully supported'' \<longrightarrow> fst (snd best) = ''fully supported'') \<and>
        ((fst (snd r) = ''fully supported'') = (fst (snd best) = ''fully supported'')
           \<longrightarrow> fst (snd (snd r)) \<le> fst (snd (snd best))))"
proof -
  obtain r rest where R: "responses = r # rest" using assms by (cases responses) auto
  from py_max_by_first_greatest[of r rest grade_key]
  obtain pre post where
    dec: "r # rest = pre @ py_max_by key_gt grade_key r rest # post"
    and pre: "\<forall>x \<in> set pre. key_gt (grade_key (py_max_by key_gt grade_key r rest)) (grade_key x)"
    and post: "\<forall>x \<in> set post. \<not> key_gt (grade_key x) (grade_key (py_max_by key_gt grade_key r rest))"
    by blast
  define best where "best = py_max_by key_gt grade_key r rest"
  have none: "\<not> key_gt (grade_key x) (grade_key best)" if "x \<in> set responses" for x
  proof -
    from that have "x \<in> set pre \<or> x = best \<or> x \<in> set post"
      unfolding R dec best_def by auto
    then show ?thesis
      using pre post unfolding best_def[symmetric]
      by (auto dest: key_gt_asym simp: key_gt_irrefl)
  qed
  have expl: "(fst (snd x) = ''fully supported'' \<longrightarrow> fst (snd best) = ''fully supported'') \<and>
        ((fst (snd x) = ''fully supported'') = (fst (snd best) = ''fully supported'')
           \<longrightarrow> fst (snd (snd x)) \<le> fst (snd (snd best)))" if "x \<in> set responses" for x
    using none[OF that] by (auto simp: key_gt_def grade_key_def split: prod.splits)
  have "best_response responses = Some best" unfolding R best_response_def best_def by simp
  moreover have "responses = pre @ best # post" unfolding R best_def by (rule dec)
  ultimately show ?thesis using pre post expl unfolding best_def[symmetric] by blast
qed

theorem best_response_first_greatest_witness:
  "best_response [(''A'', ''partially supported'', 5, []), (''B'', ''fully supported'', 2, [])]
     = Some (''B'', ''fully supported'', 2, []) \<and>
   best_response [(''A'', ''fully supported'', 3, []), (''B'', ''fully supported'', 3, [])]
     = Some (''A'', ''fully supported'', 3, [])"
  using best_response_first_greatest[of "[(''A'', ''partially supported'', 5, []), (''B'', ''fully supported'', 2, [])]"]
        best_response_first_greatest[of "[(''A'', ''fully supported'', 3, []), (''B'', ''fully supported'', 3, [])]"]
  by (simp add: best_response_def key_gt_def grade_key_def)

subsection \<open>The retrieval gate and the binary judgments\<close>

lemmas eff_defs = bind_eff_def ret_def lift_def invoke_def

lemma analysed_query_calls:
  assumes "analysed_query sv query0 image_bytes t0 = (t1, r)"
  shows "t1 = t0 \<or> (\<exists>b. t1 = t0 @ [ImageAnalysis query0 b])"
  using assms
  by (auto simp: analysed_query_def process_image_def eff_defs split: option.splits if_splits)

lemma should_retrieve_answer:
  assumes "retrieval_chain sv t q = Inr r"
  shows "should_retrieve sv q t = (t @ [RetrievalChain q], Inr (py_lower (py_strip r) = ''yes''))"
  using assms by (simp add: should_retrieve_def eff_defs)

lemma retrieval_agent_run_no:
  assumes "retrieval_chain sv t q = Inr r" and "py_lower (py_strip r) \<noteq> ''yes''"
  shows "retrieval_agent_run sv q t = (t @ [RetrievalChain q], Inr (False, []))"
  using assms by (simp add: retrieval_agent_run_def should_retrieve_def eff_defs)

lemma retrieval_agent_run_yes:
  assumes "retrieval_chain sv t q = Inr r" and "py_lower (py_strip r) = ''yes''"
  shows "retrieval_agent_run sv q t =
     (t @ [RetrievalChain q, SimilaritySearch q top_k],
      case similarity_search sv (t @ [RetrievalChain q]) q top_k of
        Inl e \<Rightarrow> Inl e | Inr documents \<Rightarrow> Inr (True, documents))"
  using assms
  by (simp add: retrieval_agent_run_def should_retrieve_def retrieve_documents_def eff_defs
      split: sum.splits)

text \<open>
  Claim C6. When the retrieval gate does not answer yes (the image analysis, if any, and
  the generation service answering), \<open>Orchestrator.run\<close> returns a result with no reference
  links and no relevant documents, whose response is the answer of the generation chain to
  the query with the fixed no-context text; the only calls it makes are the image analysis,
  the gate and that generation call, so none goes to the document store or to the web
  search.
\<close>

theorem no_retrieval_path:
  assumes img: "analysed_query sv query0 image_bytes t0 = (t1, Inr query)"
    and gate: "retrieval_chain sv t1 query = Inr answer"
    and no: "py_lower (py_strip answer) \<noteq> ''yes''"
    and gen: "generation_chain sv (t1 @ [RetrievalChain query]) (no_context_input query)
                = Inr response"
  shows "orchestrator_run sv self query0 image_bytes h t0 =
           (t1 @ [RetrievalChain query, GenerationChain (no_context_input query)],
            Inr \<lparr>final_response = response, reference_links = [], relevant_docs = []\<rparr>) \<and>
         (\<exists>calls. fst (orchestrator_run sv self query0 image_bytes h t0) = t0 @ calls \<and>
            (\<forall>c \<in> set calls. \<not> document_store_call c \<and> \<not> web_search_call c))"
proof -
  have run: "orchestrator_run sv self query0 image_bytes h t0 =
           (t1 @ [RetrievalChain query, GenerationChain (no_context_input query)],
            Inr \<lparr>final_response = response, reference_links = [], relevant_docs = []\<rparr>)"
    unfolding orchestrator_run_def
    using img retrieval_agent_run_no[OF gate no] gen
    by (cases h)
       (simp_all add: bind_eff_def ret_def generation_agent_run_def generate_without_context_def
          generate_def invoke_def with_history_def history_arg_def no_context_input_def)
  from analysed_query_calls[OF img]
  have "\<exists>calls. t1 @ [RetrievalChain query, GenerationChain (no_context_input query)] = t0 @ calls \<and>
            (\<forall>c \<in> set calls. \<not> document_store_call c \<and> \<not> web_search_call c)"
  proof
    assume "t1 = t0"
    then show ?thesis by simp
  next
    assume "\<exists>b. t1 = t0 @ [ImageAnalysis query0 b]"
    then obtain b where "t1 = t0 @ [ImageAnalysis query0 b]" ..
    then have "t1 @ [RetrievalChain query, GenerationChain (no_context_input query)] =
       t0 @ [ImageAnalysis query0 b, RetrievalChain query, GenerationChain (no_context_input query)]"
      by simp
    moreover have "\<forall>c \<in> set [ImageAnalysis query0 b, RetrievalChain query,
        GenerationChain (no_context_input query)]. \<not> document_store_call c \<and> \<not> web_search_call c"
      by simp
    ultimately show ?thesis by blast
  qed
  with run show ?thesis by simp
qed

lemma norm_No: "py_lower (py_strip ''No'') \<noteq> ''yes''"
  by code_simp

theorem no_retrieval_path_witness:
  "orchestrator_run (stub\<lparr>retrieval_chain := (\<lambda>t q. Inr ''No'')\<rparr>) default_thresholds
      ''What is a for loop?'' None None [] =
     ([RetrievalChain ''What is a for loop?'',
       GenerationChain (no_context_input ''What is a for loop?'')],
      Inr \<lparr>final_response = ''answer'', reference_links = [], relevant_docs = []\<rparr>)"
proof -
  have img: "analysed_query (stub\<lparr>retrieval_chain := (\<lambda>t q. Inr ''No'')\<rparr>)
       ''What is a for loop?'' None [] = ([], Inr ''What is a for loop?'')"
    by (simp add: analysed_query_def ret_def)
  have gate: "retrieval_chain (stub\<lparr>retrieval_chain := (\<lambda>t q. Inr ''No'')\<rparr>) []
       ''What is a for loop?'' = Inr ''No''" by simp
  have gen: "generation_chain (stub\<lparr>retrieval_chain := (\<lambda>t q. Inr ''No'')\<rparr>)
       ([] @ [RetrievalChain ''What is a for loop?''])
       (no_context_input ''What is a for loop?'') = Inr ''answer''"
    by (simp add: stub_def)
  from no_retrieval_path[OF img gate norm_No gen, of default_thresholds None]
  show ?thesis by simp
qed


lemma evaluate_relevance_step:
  assumes "relevance_chain sv t q (content d) = Inr r"
    and "numerical_relevance_chain sv (t @ [RelevanceChain q (content d)]) q (content d) = Inr s"
    and "evaluate_relevance sv q ds
           (t @ [RelevanceChain q (content d), NumericalRelevanceChain q (content d)])
         = (t', Inr rs)"
  shows "evaluate_relevance sv q (d # ds) t =
     (t', Inr (\<lparr>score = s, is_relevant = (py_lower (py_strip r) = ''relevant'')\<rparr> # rs))"
  using assms by (simp add: eff_defs Let_def)

text \<open>
  Claim C10. The gate retrieves only when the stripped and lowercased answer is exactly
  \<open>yes\<close>, and a document is judged relevant only when the stripped and lowercased answer
  is exactly \<open>relevant\<close>. Any other answer, such as \<open>yes.\<close>, gives a normal return with the
  negative decision: no retrieval, not relevant.
\<close>

theorem binary_decisions_exact_match:
  "(retrieval_chain sv t q = Inr r \<longrightarrow>
      should_retrieve sv q t = (t @ [RetrievalChain q], Inr (py_lower (py_strip r) = ''yes'')) \<and>
      (py_lower (py_strip r) \<noteq> ''yes'' \<longrightarrow>
         retrieval_agent_run sv q t = (t @ [RetrievalChain q], Inr (False, [])))) \<and>
   (relevance_chain sv t q (content d) = Inr r \<and>
    numerical_relevance_chain sv (t @ [RelevanceChain q (content d)]) q (content d) = Inr s \<and>
    evaluate_relevance sv q ds
      (t @ [RelevanceChain q (content d), NumericalRelevanceChain q (content d)]) = (t', Inr rs)
    \<longrightarrow> evaluate_relevance sv q (d # ds) t =
          (t', Inr (\<lparr>score = s, is_relevant = (py_lower (py_strip r) = ''relevant'')\<rparr> # rs))) \<and>
   py_lower (py_strip ''yes.'') \<noteq> ''yes'' \<and>
   py_lower (py_strip ''relevant.'') \<noteq> ''relevant''"
proof (intro conjI impI)
  assume a: "retrieval_chain sv t q = Inr r"
  then show "should_retrieve sv q t = (t @ [RetrievalChain q], Inr (py_lower (py_strip r) = ''yes''))"
    by (rule should_retrieve_answer)
  assume "py_lower (py_strip r) \<noteq> ''yes''"
  with a show "retrieval_agent_run sv q t = (t @ [RetrievalChain q], Inr (False, []))"
    by (rule retrieval_agent_run_no)
next
  assume "relevance_chain sv t q (content d) = Inr r \<and>
    numerical_relevance_chain sv (t @ [RelevanceChain q (content d)]) q (content d) = Inr s \<and>
    evaluate_relevance sv q ds
      (t @ [RelevanceChain q (content d), NumericalRelevanceChain q (content d)]) = (t', Inr rs)"
  then show "evaluate_relevance sv q (d # ds) t =
          (t', Inr (\<lparr>score = s, is_relevant = (py_lower (py_strip r) = ''relevant'')\<rparr> # rs))"
    by (blast intro: evaluate_relevance_step)
next
  show "py_lower (py_strip ''yes.'') \<noteq> ''yes''" by code_simp
  show "py_lower (py_strip ''relevant.'') \<noteq> ''relevant''" by code_simp
qed

lemma norm_yes_dot: "py_lower (py_strip ''yes.'') \<noteq> ''yes''"
  by code_simp
lemma norm_rel_dot: "py_lower (py_strip ''relevant.'') \<noteq> ''relevant''"
  by code_simp
lemma norm_yes_padded: "py_lower (py_strip '' YES '') = ''yes''"
  by code_simp

theorem binary_decisions_exact_match_witness:
  "retrieval_agent_run (stub\<lparr>retrieval_chain := (\<lambda>t q. Inr ''yes.'')\<rparr>) ''q'' []
     = ([RetrievalChain ''q''], Inr (False, [])) \<and>
   should_retrieve (stub\<lparr>retrieval_chain := (\<lambda>t q. Inr '' YES '')\<rparr>) ''q'' []
     = ([RetrievalChain ''q''], Inr True) \<and>
   evaluate_relevance (stub\<lparr>relevance_chain := (\<lambda>t q c. Inr ''relevant.'')\<rparr>) ''q'' [doc_a] []
     = ([RelevanceChain ''q'' ''alpha'', NumericalRelevanceChain ''q'' ''alpha''],
        Inr [\<lparr>score = 9 / 10, is_relevant = False\<rparr>])"
proof -
  have e: "evaluate_relevance (stub\<lparr>relevance_chain := (\<lambda>t q c. Inr ''relevant.'')\<rparr>) ''q'' []
      ([] @ [RelevanceChain ''q'' (content doc_a), NumericalRelevanceChain ''q'' (content doc_a)])
     = ([RelevanceChain ''q'' ''alpha'', NumericalRelevanceChain ''q'' ''alpha''], Inr [])"
    by (simp add: ret_def doc_a_def)
  have n: "numerical_relevance_chain (stub\<lparr>relevance_chain := (\<lambda>t q c. Inr ''relevant.'')\<rparr>)
      ([] @ [RelevanceChain ''q'' (content doc_a)]) ''q'' (content doc_a) = Inr (9 / 10)"
    by (simp add: stub_def doc_a_def)
  show ?thesis
    using binary_decisions_exact_match[of "stub\<lparr>retrieval_chain := (\<lambda>t q. Inr ''yes.'')\<rparr>" "[]" "''q''" "''yes.''"]
          binary_decisions_exact_match[of "stub\<lparr>retrieval_chain := (\<lambda>t q. Inr '' YES '')\<rparr>" "[]" "''q''" "'' YES ''"]
          binary_decisions_exact_match[of "stub\<lparr>relevance_chain := (\<lambda>t q c. Inr ''relevant.'')\<rparr>" "[]" "''q''"
                 "''relevant.''" doc_a "9 / 10" "[]"
                 "[RelevanceChain ''q'' ''alpha'', NumericalRelevanceChain ''q'' ''alpha'']" "[]"]
          e n norm_yes_dot norm_rel_dot norm_yes_padded
    by (simp add: doc_a_def)
qed



subsection \<open>Failure of the final generation call\<close>















subsection \<open>Failures of the web search\<close>

text \<open>
  Claim C5, as stated, at concrete services. When the refinement stage raises, the web
  search agent raises the same exception and so does \<open>Orchestrator.run\<close>: no
  \<open>WebSearchResult\<close> and no \<open>QueryResult\<close> is produced. When the raw results are not
  parseable and the refinement stage answers, the knowledge is that answer and not the
  empty string.
\<close>

theorem refinement_failure_propagates:
  "web_search_agent_run stub_refinement_raises ''q'' []
     = ([QueryRewriteChain ''q'', SearchTool ''q'', KnowledgeRefinementChain ''raw''],
        Inl (ServiceError ''refinement failed'')) \<and>
   snd (orchestrator_run stub_refinement_raises default_thresholds ''q'' None None [])
     = Inl (ServiceError ''refinement failed'') \<and>
   snd (web_search_agent_run stub ''q'' [])
     = Inr \<lparr>knowledge = ''- point'', sources = []\<rparr>"
  by code_simp

lemma web_search_agent_run_unparseable:
  assumes "query_rewrite_chain sv t query = Inr rq"
    and "search_tool sv (t @ [QueryRewriteChain query]) (py_strip rq) = Inr raw"
    and "knowledge_refinement_chain sv
           (t @ [QueryRewriteChain query, SearchTool (py_strip rq)]) raw = Inr kp"
    and "json_loads sv raw = Inl JSONDecodeError"
  shows "web_search_agent_run sv query t =
           (t @ [QueryRewriteChain query, SearchTool (py_strip rq), KnowledgeRefinementChain raw],
            Inr \<lparr>knowledge = py_join [newline]
                     (map py_strip (filter (\<lambda>point. py_strip point \<noteq> []) (py_split newline kp))),
                 sources = []\<rparr>)"
  using assms
  by (simp add: web_search_agent_run_def rewrite_query_def extract_knowledge_def
      extract_sources_def eff_defs Let_def)

lemma web_search_agent_run_refinement_raises:
  assumes "query_rewrite_chain sv t query = Inr rq"
    and "search_tool sv (t @ [QueryRewriteChain query]) (py_strip rq) = Inr raw"
    and "knowledge_refinement_chain sv
           (t @ [QueryRewriteChain query, SearchTool (py_strip rq)]) raw = Inl e"
  shows "web_search_agent_run sv query t =
           (t @ [QueryRewriteChain query, SearchTool (py_strip rq), KnowledgeRefinementChain raw],
            Inl e)"
  using assms
  by (simp add: web_search_agent_run_def rewrite_query_def extract_knowledge_def eff_defs Let_def)

lemma orchestrator_run_web_search_raises:
  assumes "analysed_query sv query0 image_bytes t0 = (t1, Inr query)"
    and "retrieval_agent_run sv query t1 = (t2, Inr (True, documents))"
    and "evaluation_agent_run sv self query documents t2 = (t, Inr (rs, strategy))"
    and "strategy = ''web_only'' \<or> strategy = ''hybrid''"
    and "web_search_agent_run sv query t = (t', Inl e)"
  shows "orchestrator_run sv self query0 image_bytes h t0 = (t', Inl e)"
  using assms
  by (auto simp add: orchestrator_run_def bind_eff_def Let_def)

text \<open>
  Claim C5, amended. Once the query is rewritten and the search has answered: if the raw
  results are not parseable (\<open>json.JSONDecodeError\<close>) and the refinement stage answers,
  \<open>WebSearchAgent.run\<close> returns a result with no sources whose knowledge is the stripped
  non-blank lines of that answer joined by newlines; if the refinement stage raises,
  \<open>WebSearchAgent.run\<close> raises the same exception after the three calls, and so does
  \<open>Orchestrator.run\<close> on the web-only and hybrid strategies.
\<close>

theorem web_search_degradation:
  assumes "query_rewrite_chain sv t query = Inr rq"
    and "search_tool sv (t @ [QueryRewriteChain query]) (py_strip rq) = Inr raw"
  shows
   "(knowledge_refinement_chain sv
        (t @ [QueryRewriteChain query, SearchTool (py_strip rq)]) raw = Inr kp \<and>
     json_loads sv raw = Inl JSONDecodeError \<longrightarrow>
       web_search_agent_run sv query t =
         (t @ [QueryRewriteChain query, SearchTool (py_strip rq), KnowledgeRefinementChain raw],
          Inr \<lparr>knowledge = py_join [newline]
                   (map py_strip (filter (\<lambda>point. py_strip point \<noteq> []) (py_split newline kp))),
               sources = []\<rparr>)) \<and>
    (knowledge_refinement_chain sv
        (t @ [QueryRewriteChain query, SearchTool (py_strip rq)]) raw = Inl e \<longrightarrow>
       web_search_agent_run sv query t =
         (t @ [QueryRewriteChain query, SearchTool (py_strip rq), KnowledgeRefinementChain raw],
          Inl e) \<and>
       (analysed_query sv query0 image_bytes t0 = (t1, Inr query) \<and>
        retrieval_agent_run sv query t1 = (t2, Inr (True, documents)) \<and>
        evaluation_agent_run sv self query documents t2 = (t, Inr (rs, strategy)) \<and>
        (strategy = ''web_only'' \<or> strategy = ''hybrid'') \<longrightarrow>
          orchestrator_run sv self query0 image_bytes h t0 =
            (t @ [QueryRewriteChain query, SearchTool (py_strip rq),
                  KnowledgeRefinementChain raw], Inl e)))"
proof (intro conjI impI)
  assume "knowledge_refinement_chain sv
        (t @ [QueryRewriteChain query, SearchTool (py_strip rq)]) raw = Inr kp \<and>
     json_loads sv raw = Inl JSONDecodeError"
  with assms show "web_search_agent_run sv query t =
         (t @ [QueryRewriteChain query, SearchTool (py_strip rq), KnowledgeRefinementChain raw],
          Inr \<lparr>knowledge = py_join [newline]
                   (map py_strip (filter (\<lambda>point. py_strip point \<noteq> []) (py_split newline kp))),
               sources = []\<rparr>)"
    by (simp add: web_search_agent_run_unparseable)
next
  assume r: "knowledge_refinement_chain sv
        (t @ [QueryRewriteChain query, SearchTool (py_strip rq)]) raw = Inl e"
  from web_search_agent_run_refinement_raises[OF assms r]
  show w: "web_search_agent_run sv query t =
         (t @ [QueryRewriteChain query, SearchTool (py_strip rq), KnowledgeRefinementChain raw],
          Inl e)" .
  assume "analysed_query sv query0 image_bytes t0 = (t1, Inr query) \<and>
        retrieval_agent_run sv query t1 = (t2, Inr (True, documents)) \<and>
        evaluation_agent_run sv self query documents t2 = (t, Inr (rs, strategy)) \<and>
        (strategy = ''web_only'' \<or> strategy = ''hybrid'')"
  then show "orchestrator_run sv self query0 image_bytes h t0 =
            (t @ [QueryRewriteChain query, SearchTool (py_strip rq),
                  KnowledgeRefinementChain raw], Inl e)"
    using orchestrator_run_web_search_raises[OF _ _ _ _ w] by blast
qed


theorem web_search_degradation_witness:
  "web_search_agent_run stub ''q'' []
     = ([QueryRewriteChain ''q'', SearchTool ''q'', KnowledgeRefinementChain ''raw''],
        Inr \<lparr>knowledge = ''- point'', sources = []\<rparr>) \<and>
   orchestrator_run stub_refinement_raises default_thresholds ''q'' None None []
     = ([RetrievalChain ''q'', SimilaritySearch ''q'' 3,
         RelevanceChain ''q'' ''beta'', NumericalRelevanceChain ''q'' ''beta'',
         RelevanceChain ''q'' ''alpha'', NumericalRelevanceChain ''q'' ''alpha'',
         QueryRewriteChain ''q'', SearchTool ''q'', KnowledgeRefinementChain ''raw''],
        Inl (ServiceError ''refinement failed''))"
proof -
  let ?T = "[RetrievalChain ''q'', SimilaritySearch ''q'' 3,
         RelevanceChain ''q'' ''beta'', NumericalRelevanceChain ''q'' ''beta'',
         RelevanceChain ''q'' ''alpha'', NumericalRelevanceChain ''q'' ''alpha'']"
  have s: "py_strip ''q'' = ''q''"
    by code_simp
  have k: "py_join [newline] (map py_strip
             (filter (\<lambda>point. py_strip point \<noteq> []) (py_split newline ''- point''))) = ''- point''"
    by code_simp
  have rw: "query_rewrite_chain stub [] ''q'' = Inr ''q''"
    by (simp add: stub_def)
  have st: "search_tool stub ([] @ [QueryRewriteChain ''q'']) (py_strip ''q'') = Inr ''raw''"
    by (simp add: stub_def)
  have kr: "knowledge_refinement_chain stub
              ([] @ [QueryRewriteChain ''q'', SearchTool (py_strip ''q'')]) ''raw'' = Inr ''- point'' \<and>
            json_loads stub ''raw'' = Inl JSONDecodeError"
    by (simp add: stub_def)
  have rw2: "query_rewrite_chain stub_refinement_raises ?T ''q'' = Inr ''q''"
    by (simp add: stub_refinement_raises_def stub_def)
  have st2: "search_tool stub_refinement_raises (?T @ [QueryRewriteChain ''q'']) (py_strip ''q'')
               = Inr ''raw''"
    by (simp add: stub_refinement_raises_def stub_def)
  have kr2: "knowledge_refinement_chain stub_refinement_raises
               (?T @ [QueryRewriteChain ''q'', SearchTool (py_strip ''q'')]) ''raw''
               = Inl (ServiceError ''refinement failed'')"
    by (simp add: stub_refinement_raises_def)
  have a: "analysed_query stub_refinement_raises ''q'' None [] = ([], Inr ''q'')"
    by (simp add: analysed_query_def ret_def)
  have r: "retrieval_agent_run stub_refinement_raises ''q'' []
             = ([RetrievalChain ''q'', SimilaritySearch ''q'' 3], Inr (True, [doc_b, doc_a]))"
    by code_simp
  have ev: "evaluation_agent_run stub_refinement_raises default_thresholds ''q'' [doc_b, doc_a]
              [RetrievalChain ''q'', SimilaritySearch ''q'' 3]
             = (?T, Inr ([\<lparr>score = 5 / 10, is_relevant = False\<rparr>,
                          \<lparr>score = 5 / 10, is_relevant = True\<rparr>], ''hybrid''))"
    by code_simp
  have pre: "analysed_query stub_refinement_raises ''q'' None [] = ([], Inr ''q'') \<and>
        retrieval_agent_run stub_refinement_raises ''q'' []
          = ([RetrievalChain ''q'', SimilaritySearch ''q'' 3], Inr (True, [doc_b, doc_a])) \<and>
        evaluation_agent_run stub_refinement_raises default_thresholds ''q'' [doc_b, doc_a]
              [RetrievalChain ''q'', SimilaritySearch ''q'' 3]
          = (?T, Inr ([\<lparr>score = 5 / 10, is_relevant = False\<rparr>,
                       \<lparr>score = 5 / 10, is_relevant = True\<rparr>], ''hybrid'')) \<and>
        (''hybrid'' = ''web_only'' \<or> ''hybrid'' = ''hybrid'')"
    using a r ev by simp
  note w1 = web_search_degradation[OF rw st, THEN conjunct1, rule_format, OF kr]
  have x1: "web_search_agent_run stub ''q'' []
     = ([QueryRewriteChain ''q'', SearchTool ''q'', KnowledgeRefinementChain ''raw''],
        Inr \<lparr>knowledge = ''- point'', sources = []\<rparr>)"
    using w1 by (simp only: s k append_Nil)
  note w2 = web_search_degradation[where h = None, OF rw2 st2, THEN conjunct2, rule_format, OF kr2, THEN conjunct2, rule_format, OF pre]
  have x2: "orchestrator_run stub_refinement_raises default_thresholds ''q'' None None []
     = ([RetrievalChain ''q'', SimilaritySearch ''q'' 3,
         RelevanceChain ''q'' ''beta'', NumericalRelevanceChain ''q'' ''beta'',
         RelevanceChain ''q'' ''alpha'', NumericalRelevanceChain ''q'' ''alpha'',
         QueryRewriteChain ''q'', SearchTool ''q'', KnowledgeRefinementChain ''raw''],
        Inl (ServiceError ''refinement failed''))"
    using w2 by (simp only: s append.simps)
  show ?thesis using x1 x2
    by (rule conjI)
qed


subsection \<open>The documents handed to generation\<close>

text \<open>
  Claim C2, as stated, at concrete services. In \<open>Orchestrator.run\<close> the strategy is
  \<open>kb_only\<close> and the document judged irrelevant is part of the context handed to the
  generation chain, next to the one judged relevant. In \<open>CombinedRAG.run\<close>, with every score
  above the upper threshold and no document judged relevant, the generation chain receives
  the web search results and no document.
\<close>


theorem kb_only_hands_over_every_document:
  "evaluation_agent_run stub default_thresholds ''q'' [doc_b, doc_a]
       [RetrievalChain ''q'', SimilaritySearch ''q'' 3]
     = ([RetrievalChain ''q'', SimilaritySearch ''q'' 3,
         RelevanceChain ''q'' ''beta'', NumericalRelevanceChain ''q'' ''beta'',
         RelevanceChain ''q'' ''alpha'', NumericalRelevanceChain ''q'' ''alpha''],
        Inr ([\<lparr>score = 5 / 10, is_relevant = False\<rparr>,
              \<lparr>score = 9 / 10, is_relevant = True\<rparr>], ''kb_only'')) \<and>
   generation_inputs (fst (orchestrator_run stub default_thresholds ''q'' None None []))
     = [\<lparr>in_query = ''q'',
         in_context = ''Document (relevance: 0.90):'' @ [newline] @ ''alpha'' @ [newline, newline]
                      @ ''Document (relevance: 0.50):'' @ [newline] @ ''beta'',
         in_history = None\<rparr>] \<and>
   generation_inputs (fst (combined_rag_run stub_none_relevant rag_defaults ''q'' []))
     = [\<lparr>in_query = ''q'',
         in_context = ''Web search results:'' @ [newline] @ ''- point'' @ [newline, newline]
                      @ ''Sources:'' @ [newline],
         in_history = None\<rparr>]"
  by code_simp

lemma grade_responses_inputs:
  "grade_responses sv q rc t = (t', Inr rs) \<Longrightarrow>
     generation_inputs t' = generation_inputs t @
       map (\<lambda>(ctx, md, sc). \<lparr>in_query = q, in_context = ctx, in_history = None\<rparr>) rc"
proof (induction rc arbitrary: t rs)
  case Nil
  then show ?case by (simp add: ret_def)
next
  case (Cons c rc)
  obtain ctx md sc where c: "c = (ctx, md, sc)" by (cases c)
  from Cons.prems obtain response support_raw utility rest where
    rest: "grade_responses sv q rc
             (t @ [GenerationChain \<lparr>in_query = q, in_context = ctx, in_history = None\<rparr>,
                   SupportChain response ctx, UtilityChain q response]) = (t', Inr rest)"
    unfolding c
    by (auto simp: bind_eff_def generate_def invoke_def ret_def Let_def
             split: prod.splits sum.splits)
  from Cons.IH[OF rest] show ?case
    by (simp add: c generation_inputs_def)
qed

lemma answer_self_rag_inputs:
  assumes "answer_self_rag sv q js th rc t = (t', Inr r)"
  shows "generation_inputs t' = generation_inputs t @
       map (\<lambda>(ctx, md, sc). \<lparr>in_query = q, in_context = ctx, in_history = None\<rparr>) rc"
proof -
  from assms obtain t1 rs where g: "grade_responses sv q rc t = (t1, Inr rs)"
    and rest: "(case best_response rs of
         None \<Rightarrow> lift (Inl ValueError)
       | Some (response, support, utility, md) \<Rightarrow>
           (let source_url = (case map_of md ''url'' of None \<Rightarrow> ''No source URL available'' | Some u \<Rightarrow> u)
            in ret \<lparr>rag_final_response = response,
                    rag_reference_links =
                      (if source_url \<noteq> ''No source URL available''
                       then [(JStr ''Primary source'', JStr source_url)] else []),
                    rag_relevant_docs = rag_relevant_docs_of th js\<rparr>)) t1 = (t', Inr r)"
    unfolding answer_self_rag_def by (erule bind_eff_Inr)
  from rest have "t' = t1"
    by (auto simp: lift_def ret_def Let_def split: option.splits prod.splits)
  with grade_responses_inputs[OF g] show ?thesis by simp
qed

lemma relevant_contexts_inputs:
  "map (\<lambda>(ctx, md, sc). \<lparr>in_query = q, in_context = ctx, in_history = None\<rparr>)
     (relevant_contexts_of js)
   = map (\<lambda>(ctx, md, sc, relevance). \<lparr>in_query = q, in_context = ctx, in_history = None\<rparr>)
       (filter (\<lambda>(ctx, md, sc, relevance). relevance = ''relevant'') js)"
  by (induction js) (auto simp: relevant_contexts_of_def)

lemma combined_rag_run_judged:
  assumes "retrieval_chain sv t query = Inr g"
    and "py_lower (py_strip g) = ''yes''"
    and "similarity_search sv (t @ [RetrievalChain query]) query (rag_top_k self) = Inr docs"
    and "judge_contexts sv query (map (\<lambda>doc. (content doc, metadata doc)) docs)
           (t @ [RetrievalChain query, SimilaritySearch query (rag_top_k self)]) = (t1, Inr js)"
  shows "combined_rag_run sv self query t =
    (case choose_action (thresholds.truncate self) (relevant_contexts_of js) (eval_scores_of js) of
       WebSearch \<Rightarrow> answer_from_web sv query js (thresholds.truncate self)
     | Combine \<Rightarrow> answer_combined sv query js (thresholds.truncate self) (relevant_contexts_of js)
     | SelfRAG \<Rightarrow> answer_self_rag sv query js (thresholds.truncate self) (relevant_contexts_of js))
      t1"
  using assms
  by (simp add: combined_rag_run_def bind_eff_def invoke_def Let_def)


lemma choose_action_self_rag:
  assumes "relevant_contexts \<noteq> []"
    and "lower_threshold th < upper_threshold th"
    and "upper_threshold th \<le> max_score_of eval_scores"
  shows "choose_action th relevant_contexts eval_scores = SelfRAG"
  using assms by (simp add: choose_action_def Let_def)

lemma choose_action_none_relevant:
  "choose_action th [] eval_scores = WebSearch"
  by (simp add: choose_action_def Let_def)

lemma mset_insort_desc: "mset (insort_desc k x ys) = add_mset x (mset ys)"
  by (induction ys) simp_all

lemma mset_sorted_reverse: "mset (sorted_reverse k xs) = mset xs"
  by (induction xs) (simp_all add: sorted_reverse_def mset_insort_desc)

lemma evaluate_relevance_length:
  "evaluate_relevance sv q ds t = (t', Inr rs) \<Longrightarrow> length rs = length ds"
proof (induction ds arbitrary: t rs)
  case Nil
  then show ?case by (simp add: ret_def)
next
  case (Cons d ds)
  from Cons.prems obtain t1 rest where
    rest: "evaluate_relevance sv q ds t1 = (t', Inr rest)" and rs: "length rs = Suc (length rest)"
    by (auto simp: bind_eff_def invoke_def ret_def Let_def split: prod.splits sum.splits)
  from Cons.IH[OF rest] rs show ?case by simp
qed

lemma evaluation_agent_run_length:
  assumes "evaluation_agent_run sv th q ds t = (t', Inr (rs, strategy))"
  shows "length rs = length ds"
  using assms
  by (auto simp: evaluation_agent_run_def ret_def elim!: bind_eff_Inr
           dest: evaluate_relevance_length)

lemma kb_context_documents:
  assumes "length scores = length documents"
  shows "mset (map fst (sorted_reverse snd (zip documents scores))) = mset documents"
proof -
  have "mset (map fst (sorted_reverse snd (zip documents scores)))
          = image_mset fst (mset (sorted_reverse snd (zip documents scores)))"
    by simp
  also have "\<dots> = image_mset fst (mset (zip documents scores))"
    by (simp only: mset_sorted_reverse)
  also have "\<dots> = mset (map fst (zip documents scores))"
    by simp
  also have "\<dots> = mset documents"
    using assms by simp
  finally show ?thesis .
qed

lemma orchestrator_run_kb_only_calls:
  assumes "analysed_query sv query0 image_bytes t0 = (u1, Inr q)"
    and "retrieval_agent_run sv q u1 = (u2, Inr (True, documents))"
    and "evaluation_agent_run sv th q documents u2 = (u3, Inr (rs, ''kb_only''))"
  shows "fst (orchestrator_run sv th query0 image_bytes h t0) =
           u3 @ [GenerationChain (with_history q
                   (fst (prepare_kb_context sv documents (map score rs))) h)]"
  using assms
  by (simp add: orchestrator_run_def bind_eff_def Let_def ret_def generation_agent_run_def
      generate_from_kb_def kb_context_of_def lift_def generate_def invoke_def split: sum.splits)

lemma perform_web_search_inputs:
  assumes "perform_web_search sv query t = (t', x)"
  shows "generation_inputs t' = generation_inputs t"
  using assms
  by (auto simp: perform_web_search_def knowledge_refinement_def rewrite_query_def
        extract_knowledge_def bind_eff_def invoke_def ret_def lift_def Let_def
        generation_inputs_def
      split: prod.splits sum.splits)

lemma answer_from_web_inputs:
  assumes "answer_from_web sv query js th t = (t2, Inr r)"
  shows "\<exists>t' web_knowledge web_sources ls.
           perform_web_search sv query t = (t', Inr (web_knowledge, web_sources)) \<and>
           web_source_lines sv web_sources = Inr ls \<and>
           generation_inputs t2 = generation_inputs t @
             [\<lparr>in_query = query,
               in_context = ''Web search results:'' @ [newline] @ web_knowledge
                            @ [newline, newline] @ ''Sources:'' @ [newline]
                            @ py_join [newline] ls,
               in_history = None\<rparr>]"
proof -
  from assms obtain t' w where p: "perform_web_search sv query t = (t', Inr w)"
    and rest: "(case w of (web_knowledge, web_sources) \<Rightarrow>
        bind_eff (lift (web_source_lines sv web_sources)) (\<lambda>ls.
        bind_eff (generate sv
          \<lparr>in_query = query,
           in_context = ''Web search results:'' @ [newline] @ web_knowledge @ [newline, newline]
                        @ ''Sources:'' @ [newline] @ py_join [newline] ls,
           in_history = None\<rparr>) (\<lambda>response.
         ret \<lparr>rag_final_response = response,
              rag_reference_links = linked web_sources,
              rag_relevant_docs = rag_relevant_docs_of th js\<rparr>))) t' = (t2, Inr r)"
    unfolding answer_from_web_def by (erule bind_eff_Inr)
  obtain web_knowledge web_sources where w: "w = (web_knowledge, web_sources)"
    by (cases w)
  from rest obtain ls where ls: "web_source_lines sv web_sources = Inr ls"
    and t2: "t2 = t' @ [GenerationChain
          \<lparr>in_query = query,
           in_context = ''Web search results:'' @ [newline] @ web_knowledge @ [newline, newline]
                        @ ''Sources:'' @ [newline] @ py_join [newline] ls,
           in_history = None\<rparr>]"
    unfolding w
    by (auto simp: bind_eff_def lift_def generate_def invoke_def ret_def
             split: prod.splits sum.splits)
  from perform_web_search_inputs[OF p] have "generation_inputs t' = generation_inputs t" .
  with t2 have "generation_inputs t2 = generation_inputs t @
             [\<lparr>in_query = query,
               in_context = ''Web search results:'' @ [newline] @ web_knowledge
                            @ [newline, newline] @ ''Sources:'' @ [newline]
                            @ py_join [newline] ls,
               in_history = None\<rparr>]"
    by (simp add: generation_inputs_def)
  with p ls w show ?thesis by blast
qed

text \<open>
  Claim C2, amended. In \<open>CombinedRAG.run\<close>, once the gate has answered yes and the retrieved
  contexts are judged: when no context was judged relevant the run is that of the web
  search branch, whatever the scores, and a run that returns has called the generation chain
  once, with a context made of the web knowledge and the web sources only, so that no
  document is handed over as a fallback; when some context was judged relevant and the
  greatest score reaches the upper threshold, a run that returns has called the generation
  chain once for each context judged relevant, in the order of retrieval, and for no other.
  In \<open>Orchestrator.run\<close>, on the strategy \<open>kb_only\<close>, the one generation call receives the
  context built from all retrieved documents, in descending order of score.
\<close>

theorem kb_only_candidates:
  assumes "retrieval_chain sv t query = Inr g"
    and "py_lower (py_strip g) = ''yes''"
    and "similarity_search sv (t @ [RetrievalChain query]) query (rag_top_k self) = Inr docs"
    and "judge_contexts sv query (map (\<lambda>doc. (content doc, metadata doc)) docs)
           (t @ [RetrievalChain query, SimilaritySearch query (rag_top_k self)]) = (t1, Inr js)"
  shows
   "(relevant_contexts_of js = [] \<longrightarrow>
       combined_rag_run sv self query t
         = answer_from_web sv query js (thresholds.truncate self) t1) \<and>
    (relevant_contexts_of js = [] \<and> combined_rag_run sv self query t = (t2, Inr r) \<longrightarrow>
       (\<exists>t' web_knowledge web_sources ls.
          perform_web_search sv query t1 = (t', Inr (web_knowledge, web_sources)) \<and>
          web_source_lines sv web_sources = Inr ls \<and>
          generation_inputs t2 = generation_inputs t1 @
            [\<lparr>in_query = query,
              in_context = ''Web search results:'' @ [newline] @ web_knowledge
                           @ [newline, newline] @ ''Sources:'' @ [newline]
                           @ py_join [newline] ls,
              in_history = None\<rparr>])) \<and>
    (relevant_contexts_of js \<noteq> [] \<and> lower_threshold self < upper_threshold self \<and>
     upper_threshold self \<le> max_score_of (eval_scores_of js) \<and>
     combined_rag_run sv self query t = (t2, Inr r) \<longrightarrow>
       generation_inputs t2 = generation_inputs t1 @
         map (\<lambda>(ctx, md, sc, relevance). \<lparr>in_query = query, in_context = ctx, in_history = None\<rparr>)
           (filter (\<lambda>(ctx, md, sc, relevance). relevance = ''relevant'') js)) \<and>
    (analysed_query sv query0 image_bytes t0 = (u1, Inr q) \<and>
     retrieval_agent_run sv q u1 = (u2, Inr (True, documents)) \<and>
     evaluation_agent_run sv th q documents u2 = (u3, Inr (rs, ''kb_only'')) \<longrightarrow>
       fst (orchestrator_run sv th query0 image_bytes h t0) =
         u3 @ [GenerationChain (with_history q
                 (py_join [newline, newline]
                    (map (\<lambda>(doc, sc). ''Document (relevance: '' @ format_2f sv sc @ ''):''
                                        @ [newline] @ content doc)
                       (sorted_reverse snd (zip documents (map score rs))))) h)] \<and>
       mset (map fst (sorted_reverse snd (zip documents (map score rs)))) = mset documents)"
proof (intro conjI impI)
  assume "relevant_contexts_of js = []"
  then show "combined_rag_run sv self query t
         = answer_from_web sv query js (thresholds.truncate self) t1"
    by (simp add: combined_rag_run_judged[OF assms] choose_action_none_relevant)
next
  assume n: "relevant_contexts_of js = [] \<and> combined_rag_run sv self query t = (t2, Inr r)"
  then have e: "relevant_contexts_of js = []"
    and c: "combined_rag_run sv self query t = (t2, Inr r)"
    by simp_all
  from c have "answer_from_web sv query js (thresholds.truncate self) t1 = (t2, Inr r)"
    unfolding combined_rag_run_judged[OF assms] e choose_action_none_relevant by simp
  from answer_from_web_inputs[OF this]
  show "\<exists>t' web_knowledge web_sources ls.
          perform_web_search sv query t1 = (t', Inr (web_knowledge, web_sources)) \<and>
          web_source_lines sv web_sources = Inr ls \<and>
          generation_inputs t2 = generation_inputs t1 @
            [\<lparr>in_query = query,
              in_context = ''Web search results:'' @ [newline] @ web_knowledge
                           @ [newline, newline] @ ''Sources:'' @ [newline]
                           @ py_join [newline] ls,
              in_history = None\<rparr>]" .
next
  assume a: "relevant_contexts_of js \<noteq> [] \<and> lower_threshold self < upper_threshold self \<and>
     upper_threshold self \<le> max_score_of (eval_scores_of js) \<and>
     combined_rag_run sv self query t = (t2, Inr r)"
  then have "choose_action (thresholds.truncate self) (relevant_contexts_of js) (eval_scores_of js)
               = SelfRAG"
    by (intro choose_action_self_rag) (simp_all add: thresholds.truncate_def)
  with a have "answer_self_rag sv query js (thresholds.truncate self) (relevant_contexts_of js) t1
                 = (t2, Inr r)"
    by (simp add: combined_rag_run_judged[OF assms])
  from answer_self_rag_inputs[OF this]
  show "generation_inputs t2 = generation_inputs t1 @
         map (\<lambda>(ctx, md, sc, relevance). \<lparr>in_query = query, in_context = ctx, in_history = None\<rparr>)
           (filter (\<lambda>(ctx, md, sc, relevance). relevance = ''relevant'') js)"
    by (simp only: relevant_contexts_inputs)
next
  assume o: "analysed_query sv query0 image_bytes t0 = (u1, Inr q) \<and>
     retrieval_agent_run sv q u1 = (u2, Inr (True, documents)) \<and>
     evaluation_agent_run sv th q documents u2 = (u3, Inr (rs, ''kb_only''))"
  then have "fst (orchestrator_run sv th query0 image_bytes h t0) =
           u3 @ [GenerationChain (with_history q
                   (fst (prepare_kb_context sv documents (map score rs))) h)]"
    using orchestrator_run_kb_only_calls[of sv query0 image_bytes t0 u1 q u2 documents th u3 rs h]
    by blast
  then show "fst (orchestrator_run sv th query0 image_bytes h t0) =
         u3 @ [GenerationChain (with_history q
                 (py_join [newline, newline]
                    (map (\<lambda>(doc, sc). ''Document (relevance: '' @ format_2f sv sc @ ''):''
                                        @ [newline] @ content doc)
                       (sorted_reverse snd (zip documents (map score rs))))) h)]"
    by (simp add: prepare_kb_context_def Let_def)
  from o have "length (map score rs) = length documents"
    using evaluation_agent_run_length[of sv th q documents u2 u3 rs "''kb_only''"] by simp
  then show "mset (map fst (sorted_reverse snd (zip documents (map score rs)))) = mset documents"
    by (rule kb_context_documents)
qed


theorem kb_only_candidates_witness:
  "combined_rag_run stub_none_relevant rag_defaults ''q'' []
     = answer_from_web stub_none_relevant ''q''
         [(''beta'', [], 9 / 10, ''irrelevant''),
          (''alpha'', [(''url'', ''http://a''), (''source_url'', ''http://a/src'')], 9 / 10,
           ''irrelevant'')]
         (thresholds.truncate rag_defaults)
         [RetrievalChain ''q'', SimilaritySearch ''q'' 3,
          NumericalRelevanceChain ''q'' ''beta'', RelevanceChain ''q'' ''beta'',
          NumericalRelevanceChain ''q'' ''alpha'', RelevanceChain ''q'' ''alpha''] \<and>
   generation_inputs (fst (combined_rag_run stub_none_relevant rag_defaults ''q'' []))
     = [\<lparr>in_query = ''q'',
         in_context = ''Web search results:'' @ [newline] @ ''- point'' @ [newline, newline]
                      @ ''Sources:'' @ [newline],
         in_history = None\<rparr>] \<and>
   generation_inputs (fst (combined_rag_run stub rag_defaults ''q'' []))
     = [\<lparr>in_query = ''q'', in_context = ''alpha'', in_history = None\<rparr>] \<and>
   fst (orchestrator_run stub default_thresholds ''q'' None None [])
     = [RetrievalChain ''q'', SimilaritySearch ''q'' 3,
        RelevanceChain ''q'' ''beta'', NumericalRelevanceChain ''q'' ''beta'',
        RelevanceChain ''q'' ''alpha'', NumericalRelevanceChain ''q'' ''alpha'',
        GenerationChain
          \<lparr>in_query = ''q'',
           in_context = ''Document (relevance: 0.90):'' @ [newline] @ ''alpha''
                        @ [newline, newline]
                        @ ''Document (relevance: 0.50):'' @ [newline] @ ''beta'',
           in_history = None\<rparr>] \<and>
   mset (map fst (sorted_reverse snd (zip [doc_b, doc_a] [5 / 10, 9 / 10]))) = mset [doc_b, doc_a]"
proof -
  let ?T0 = "[RetrievalChain ''q'', SimilaritySearch ''q'' 3]"
  let ?T1 = "[RetrievalChain ''q'', SimilaritySearch ''q'' 3,
          NumericalRelevanceChain ''q'' ''beta'', RelevanceChain ''q'' ''beta'',
          NumericalRelevanceChain ''q'' ''alpha'', RelevanceChain ''q'' ''alpha'']"
  let ?U3 = "[RetrievalChain ''q'', SimilaritySearch ''q'' 3,
        RelevanceChain ''q'' ''beta'', NumericalRelevanceChain ''q'' ''beta'',
        RelevanceChain ''q'' ''alpha'', NumericalRelevanceChain ''q'' ''alpha'']"
  let ?md = "[(''url'', ''http://a''), (''source_url'', ''http://a/src'')]"
  let ?JN = "[(''beta'', [], 9 / 10, ''irrelevant''), (''alpha'', ?md, 9 / 10, ''irrelevant'')]"
  let ?JS = "[(''beta'', [], 5 / 10, ''irrelevant''), (''alpha'', ?md, 9 / 10, ''relevant'')]"
  let ?RS = "[\<lparr>score = 5 / 10, is_relevant = False\<rparr>, \<lparr>score = 9 / 10, is_relevant = True\<rparr>]"
  let ?T2 = "?T1 @ [GenerationChain \<lparr>in_query = ''q'', in_context = ''alpha'', in_history = None\<rparr>,
               SupportChain ''answer'' ''alpha'', UtilityChain ''q'' ''answer'']"
  let ?R = "\<lparr>rag_final_response = ''answer'',
            rag_reference_links = [(JStr ''Primary source'', JStr ''http://a'')],
            rag_relevant_docs =
              [\<lparr>content_preview = ''beta'', doc_score = 5 / 10, doc_url = ''No URL available''\<rparr>,
               \<lparr>content_preview = ''alpha'', doc_score = 9 / 10,
                doc_url = ''No URL available''\<rparr>]\<rparr>"
  have y: "py_lower (py_strip ''Yes'') = ''yes''"
    by code_simp
  have g1: "retrieval_chain stub_none_relevant [] ''q'' = Inr ''Yes''"
    by (simp add: stub_none_relevant_def stub_def)
  have d1: "similarity_search stub_none_relevant ([] @ [RetrievalChain ''q'']) ''q''
              (rag_top_k rag_defaults) = Inr [doc_b, doc_a]"
    by (simp add: stub_none_relevant_def stub_def)
  have j1: "judge_contexts stub_none_relevant ''q''
              (map (\<lambda>doc. (content doc, metadata doc)) [doc_b, doc_a])
              ([] @ [RetrievalChain ''q'', SimilaritySearch ''q'' (rag_top_k rag_defaults)])
            = (?T1, Inr ?JN)"
    by code_simp
  have n1: "relevant_contexts_of ?JN = []"
    by code_simp
  note w1 = kb_only_candidates[OF g1 y d1 j1, THEN conjunct1, rule_format, OF n1]
  let ?W = "\<lparr>in_query = ''q'',
         in_context = ''Web search results:'' @ [newline] @ ''- point'' @ [newline, newline]
                      @ ''Sources:'' @ [newline],
         in_history = None\<rparr>"
  let ?TW = "?T1 @ [QueryRewriteChain ''q'', SearchTool ''q'', KnowledgeRefinementChain ''raw'']"
  let ?RN = "\<lparr>rag_final_response = ''answer'', rag_reference_links = [],
             rag_relevant_docs =
               [\<lparr>content_preview = ''beta'', doc_score = 9 / 10, doc_url = ''No URL available''\<rparr>,
                \<lparr>content_preview = ''alpha'', doc_score = 9 / 10,
                 doc_url = ''No URL available''\<rparr>]\<rparr>"
  have runN: "combined_rag_run stub_none_relevant rag_defaults ''q'' []
                = (?TW @ [GenerationChain ?W], Inr ?RN)"
    by code_simp
  have preN: "relevant_contexts_of ?JN = [] \<and>
      combined_rag_run stub_none_relevant rag_defaults ''q'' []
        = (?TW @ [GenerationChain ?W], Inr ?RN)"
    by (intro conjI n1 runN)
  note wN = kb_only_candidates[OF g1 y d1 j1, THEN conjunct2, THEN conjunct1, rule_format, OF preN]
  have pw: "perform_web_search stub_none_relevant ''q'' ?T1 = (?TW, Inr (''- point'', []))"
    by code_simp
  have giN: "generation_inputs ?T1 = []"
    by code_simp
  from wN obtain t' web_knowledge web_sources ls where
    p: "perform_web_search stub_none_relevant ''q'' ?T1 = (t', Inr (web_knowledge, web_sources))"
    and l: "web_source_lines stub_none_relevant web_sources = Inr ls"
    and gi: "generation_inputs (?TW @ [GenerationChain ?W]) = generation_inputs ?T1 @
            [\<lparr>in_query = ''q'',
              in_context = ''Web search results:'' @ [newline] @ web_knowledge
                           @ [newline, newline] @ ''Sources:'' @ [newline]
                           @ py_join [newline] ls,
              in_history = None\<rparr>]"
    by blast
  from p pw have wk: "web_knowledge = ''- point''" and ws: "web_sources = []"
    by simp_all
  from l ws have ls: "ls = []"
    by simp
  have xN: "generation_inputs (fst (combined_rag_run stub_none_relevant rag_defaults ''q'' []))
     = [?W]"
    using gi unfolding wk ls giN by (simp only: runN fst_conv py_join.simps append_Nil append_Nil2)
  have g2: "retrieval_chain stub [] ''q'' = Inr ''Yes''"
    by (simp add: stub_def)
  have d2: "similarity_search stub ([] @ [RetrievalChain ''q'']) ''q''
              (rag_top_k rag_defaults) = Inr [doc_b, doc_a]"
    by (simp add: stub_def)
  have j2: "judge_contexts stub ''q''
              (map (\<lambda>doc. (content doc, metadata doc)) [doc_b, doc_a])
              ([] @ [RetrievalChain ''q'', SimilaritySearch ''q'' (rag_top_k rag_defaults)])
            = (?T1, Inr ?JS)"
    by code_simp
  have p1: "relevant_contexts_of ?JS \<noteq> []"
    by code_simp
  have p2: "lower_threshold rag_defaults < upper_threshold rag_defaults"
    by (simp add: rag_defaults_def)
  have p3: "upper_threshold rag_defaults \<le> max_score_of (eval_scores_of ?JS)"
    by code_simp
  have run: "combined_rag_run stub rag_defaults ''q'' [] = (?T2, Inr ?R)"
    by code_simp
  have pre2: "relevant_contexts_of ?JS \<noteq> [] \<and>
      lower_threshold rag_defaults < upper_threshold rag_defaults \<and>
      upper_threshold rag_defaults \<le> max_score_of (eval_scores_of ?JS) \<and>
      combined_rag_run stub rag_defaults ''q'' [] = (?T2, Inr ?R)"
    by (intro conjI p1 p2 p3 run)
  note w2 = kb_only_candidates[OF g2 y d2 j2, THEN conjunct2, THEN conjunct2, THEN conjunct1, rule_format, OF pre2]
  have f2: "generation_inputs ?T1 @
         map (\<lambda>(ctx, md, sc, relevance). \<lparr>in_query = ''q'', in_context = ctx, in_history = None\<rparr>)
           (filter (\<lambda>(ctx, md, sc, relevance). relevance = ''relevant'') ?JS)
        = [\<lparr>in_query = ''q'', in_context = ''alpha'', in_history = None\<rparr>]"
    by code_simp
  have x2: "generation_inputs (fst (combined_rag_run stub rag_defaults ''q'' []))
     = [\<lparr>in_query = ''q'', in_context = ''alpha'', in_history = None\<rparr>]"
    using w2 by (simp only: run fst_conv f2)
  have a: "analysed_query stub ''q'' None [] = ([], Inr ''q'')"
    by (simp add: analysed_query_def ret_def)
  have r: "retrieval_agent_run stub ''q'' [] = (?T0, Inr (True, [doc_b, doc_a]))"
    by code_simp
  have e: "evaluation_agent_run stub default_thresholds ''q'' [doc_b, doc_a] ?T0
             = (?U3, Inr (?RS, ''kb_only''))"
    by code_simp
  have pre3: "analysed_query stub ''q'' None [] = ([], Inr ''q'') \<and>
     retrieval_agent_run stub ''q'' [] = (?T0, Inr (True, [doc_b, doc_a])) \<and>
     evaluation_agent_run stub default_thresholds ''q'' [doc_b, doc_a] ?T0
       = (?U3, Inr (?RS, ''kb_only''))"
    by (intro conjI a r e)
  note w3 = kb_only_candidates[where h = None, OF g2 y d2 j2, THEN conjunct2, THEN conjunct2, THEN conjunct2, rule_format, OF pre3]
  have c3: "?U3 @ [GenerationChain (with_history ''q''
                 (py_join [newline, newline]
                    (map (\<lambda>(doc, sc). ''Document (relevance: '' @ format_2f stub sc @ ''):''
                                        @ [newline] @ content doc)
                       (sorted_reverse snd (zip [doc_b, doc_a] (map score ?RS))))) None)]
     = [RetrievalChain ''q'', SimilaritySearch ''q'' 3,
        RelevanceChain ''q'' ''beta'', NumericalRelevanceChain ''q'' ''beta'',
        RelevanceChain ''q'' ''alpha'', NumericalRelevanceChain ''q'' ''alpha'',
        GenerationChain
          \<lparr>in_query = ''q'',
           in_context = ''Document (relevance: 0.90):'' @ [newline] @ ''alpha''
                        @ [newline, newline]
                        @ ''Document (relevance: 0.50):'' @ [newline] @ ''beta'',
           in_history = None\<rparr>]"
    by code_simp
  have m3: "map score ?RS = [5 / 10, 9 / 10]"
    by simp
  have x3: "fst (orchestrator_run stub default_thresholds ''q'' None None [])
     = [RetrievalChain ''q'', SimilaritySearch ''q'' 3,
        RelevanceChain ''q'' ''beta'', NumericalRelevanceChain ''q'' ''beta'',
        RelevanceChain ''q'' ''alpha'', NumericalRelevanceChain ''q'' ''alpha'',
        GenerationChain
          \<lparr>in_query = ''q'',
           in_context = ''Document (relevance: 0.90):'' @ [newline] @ ''alpha''
                        @ [newline, newline]
                        @ ''Document (relevance: 0.50):'' @ [newline] @ ''beta'',
           in_history = None\<rparr>]"
    using w3[THEN conjunct1] by (simp only: c3)
  have x4: "mset (map fst (sorted_reverse snd (zip [doc_b, doc_a] [5 / 10, 9 / 10])))
              = mset [doc_b, doc_a]"
    using w3[THEN conjunct2] by (simp only: m3)
  from w1 xN x2 x3 x4 show ?thesis
    by (intro conjI)
qed

subsection \<open>What the selection of the strategy reads\<close>

lemma max_score_of_Max:
  "es \<noteq> [] \<Longrightarrow> max_score_of es = Max (set es)"
  by (cases es) (simp_all add: max_score_of_def py_max_from_Max)

lemma choose_action_depends:
  assumes "relevant_contexts = [] \<longleftrightarrow> relevant_contexts' = []"
    and "max_score_of eval_scores = max_score_of eval_scores'"
  shows "choose_action th relevant_contexts eval_scores
           = choose_action th relevant_contexts' eval_scores'"
  using assms by (simp add: choose_action_def Let_def)

lemma relevant_contexts_of_empty:
  "relevant_contexts_of js = [] \<longleftrightarrow>
     (\<forall>j \<in> set js. snd (snd (snd j)) \<noteq> ''relevant'')"
  by (induction js) (auto simp: relevant_contexts_of_def)

lemma max_score_of_mset:
  assumes "mset js = mset js'"
  shows "max_score_of (eval_scores_of js) = max_score_of (eval_scores_of js')"
proof -
  have m: "mset (eval_scores_of js) = mset (eval_scores_of js')"
    using assms unfolding eval_scores_of_def by (metis mset_map)
  then have s: "set (eval_scores_of js) = set (eval_scores_of js')"
    by (rule mset_eq_setD)
  have e: "eval_scores_of js = [] \<longleftrightarrow> eval_scores_of js' = []"
    using m by (metis mset_zero_iff)
  show ?thesis
  proof (cases "eval_scores_of js = []")
    case True
    with e show ?thesis by (simp add: max_score_of_def)
  next
    case False
    with e s show ?thesis by (simp add: max_score_of_Max)
  qed
qed

lemma choose_action_mset:
  assumes "mset js = mset js'"
  shows "choose_action th (relevant_contexts_of js) (eval_scores_of js)
           = choose_action th (relevant_contexts_of js') (eval_scores_of js')"
proof (rule choose_action_depends)
  from assms have "set js = set js'" by (rule mset_eq_setD)
  then show "relevant_contexts_of js = [] \<longleftrightarrow> relevant_contexts_of js' = []"
    by (simp add: relevant_contexts_of_empty)
  from assms show "max_score_of (eval_scores_of js) = max_score_of (eval_scores_of js')"
    by (rule max_score_of_mset)
qed

lemma evaluation_agent_run_strategy:
  assumes "evaluation_agent_run sv self q ds t = (t', Inr (rs, strategy))"
  shows "strategy = determine_retrieval_strategy self rs"
  using assms
  by (auto simp: evaluation_agent_run_def ret_def elim!: bind_eff_Inr)

text \<open>
  Claim C7, as stated, at the branch of \<open>CombinedRAG.run\<close>: two judged lists with the same
  scores, hence the same greatest score, under the same thresholds, take different
  branches, because the branch also reads whether any context was judged relevant.
\<close>

theorem choose_action_reads_binary_judgments:
  "choose_action default_thresholds
     (relevant_contexts_of [(''c'', [], 9 / 10, ''irrelevant'')])
     (eval_scores_of [(''c'', [], 9 / 10, ''irrelevant'')]) = WebSearch \<and>
   choose_action default_thresholds
     (relevant_contexts_of [(''c'', [], 9 / 10, ''relevant'')])
     (eval_scores_of [(''c'', [], 9 / 10, ''relevant'')]) = SelfRAG \<and>
   max_score_of (eval_scores_of [(''c'', [], 9 / 10, ''irrelevant'')]) = 9 / 10 \<and>
   max_score_of (eval_scores_of [(''c'', [], 9 / 10, ''relevant'')]) = 9 / 10"
  by code_simp

text \<open>
  Claim C7, amended. The strategy that \<open>EvaluationAgent.determine_retrieval_strategy\<close>
  selects is determined by the greatest score and the two thresholds: two score lists that
  are both empty or both non-empty with the same greatest score get the same strategy, and
  so do two lists that are permutations of each other. It reads nothing else: whatever the
  services, the calls made before, the query and the documents, the strategy that
  \<open>EvaluationAgent.run\<close> returns with the scores is the one selected from these scores.
  The branch of \<open>CombinedRAG.run\<close> is determined by the greatest score (0 for no score), the
  two thresholds and whether any context was judged relevant; permuting the judged
  contexts does not change it. Scores are numbers.
\<close>

theorem strategy_selection_dependence:
  "((S = [] \<longleftrightarrow> S' = []) \<and> Max (score ` set S) = Max (score ` set S')
      \<longrightarrow> determine_retrieval_strategy self S = determine_retrieval_strategy self S') \<and>
   (mset S = mset S'
      \<longrightarrow> determine_retrieval_strategy self S = determine_retrieval_strategy self S') \<and>
   (evaluation_agent_run sv self q ds t = (t', Inr (S, strategy))
      \<longrightarrow> strategy = determine_retrieval_strategy self S) \<and>
   ((rc = [] \<longleftrightarrow> rc' = []) \<and> max_score_of es = max_score_of es'
      \<longrightarrow> choose_action th rc es = choose_action th rc' es') \<and>
   (es \<noteq> [] \<longrightarrow> max_score_of es = Max (set es)) \<and>
   (mset js = mset js'
      \<longrightarrow> choose_action th (relevant_contexts_of js) (eval_scores_of js)
            = choose_action th (relevant_contexts_of js') (eval_scores_of js'))"
proof (intro conjI impI)
  assume a: "(S = [] \<longleftrightarrow> S' = []) \<and> Max (score ` set S) = Max (score ` set S')"
  show "determine_retrieval_strategy self S = determine_retrieval_strategy self S'"
  proof (cases "S = []")
    case True with a show ?thesis by simp
  next
    case False with a show ?thesis by (simp add: strategy_by_Max)
  qed
next
  assume m: "mset S = mset S'"
  then have "set S = set S'" by (rule mset_eq_setD)
  moreover have "S = [] \<longleftrightarrow> S' = []" using m by (metis mset_zero_iff)
  ultimately show "determine_retrieval_strategy self S = determine_retrieval_strategy self S'"
    by (cases "S = []") (simp_all add: strategy_by_Max)
next
  assume "evaluation_agent_run sv self q ds t = (t', Inr (S, strategy))"
  then show "strategy = determine_retrieval_strategy self S"
    by (rule evaluation_agent_run_strategy)
next
  assume "(rc = [] \<longleftrightarrow> rc' = []) \<and> max_score_of es = max_score_of es'"
  then show "choose_action th rc es = choose_action th rc' es'"
    by (intro choose_action_depends) simp_all
next
  assume "es \<noteq> []"
  then show "max_score_of es = Max (set es)"
    by (rule max_score_of_Max)
next
  assume "mset js = mset js'"
  then show "choose_action th (relevant_contexts_of js) (eval_scores_of js)
               = choose_action th (relevant_contexts_of js') (eval_scores_of js')"
    by (rule choose_action_mset)
qed

theorem strategy_selection_dependence_witness:
  "determine_retrieval_strategy default_thresholds
     [\<lparr>score = 5 / 10, is_relevant = True\<rparr>, \<lparr>score = 9 / 10, is_relevant = False\<rparr>]
   = determine_retrieval_strategy default_thresholds
     [\<lparr>score = 9 / 10, is_relevant = False\<rparr>, \<lparr>score = 5 / 10, is_relevant = True\<rparr>] \<and>
   determine_retrieval_strategy default_thresholds
     [\<lparr>score = 5 / 10, is_relevant = True\<rparr>, \<lparr>score = 9 / 10, is_relevant = False\<rparr>]
   = determine_retrieval_strategy default_thresholds [\<lparr>score = 9 / 10, is_relevant = True\<rparr>] \<and>
   ''kb_only'' = determine_retrieval_strategy default_thresholds
     [\<lparr>score = 5 / 10, is_relevant = False\<rparr>, \<lparr>score = 9 / 10, is_relevant = True\<rparr>] \<and>
   choose_action default_thresholds [(''c'', [], 9 / 10)] [5 / 10, 9 / 10]
   = choose_action default_thresholds [(''d'', [], 5 / 10), (''c'', [], 9 / 10)] [9 / 10] \<and>
   max_score_of [5 / 10, 9 / 10] = Max (set [5 / 10, 9 / 10]) \<and>
   choose_action default_thresholds
     (relevant_contexts_of [(''d'', [], 5 / 10, ''irrelevant''), (''c'', [], 9 / 10, ''relevant'')])
     (eval_scores_of [(''d'', [], 5 / 10, ''irrelevant''), (''c'', [], 9 / 10, ''relevant'')])
   = choose_action default_thresholds
     (relevant_contexts_of [(''c'', [], 9 / 10, ''relevant''), (''d'', [], 5 / 10, ''irrelevant'')])
     (eval_scores_of [(''c'', [], 9 / 10, ''relevant''), (''d'', [], 5 / 10, ''irrelevant'')])"
proof -
  let ?A = "[\<lparr>score = 5 / 10, is_relevant = True\<rparr>, \<lparr>score = 9 / 10, is_relevant = False\<rparr>]"
  let ?B = "[\<lparr>score = 9 / 10, is_relevant = False\<rparr>, \<lparr>score = 5 / 10, is_relevant = True\<rparr>]"
  let ?C = "[\<lparr>score = 9 / 10, is_relevant = True\<rparr>]"
  let ?RS = "[\<lparr>score = 5 / 10, is_relevant = False\<rparr>, \<lparr>score = 9 / 10, is_relevant = True\<rparr>]"
  let ?J = "[(''d'', [], 5 / 10, ''irrelevant''), (''c'', [], 9 / 10, ''relevant'')]
              :: judged list"
  let ?K = "[(''c'', [], 9 / 10, ''relevant''), (''d'', [], 5 / 10, ''irrelevant'')]
              :: judged list"
  have h1: "(?A = [] \<longleftrightarrow> ?C = []) \<and> Max (score ` set ?A) = Max (score ` set ?C)"
    by simp
  have h2: "mset ?A = mset ?B"
    by simp
  have h3: "evaluation_agent_run stub default_thresholds ''q'' [doc_b, doc_a] []
              = ([RelevanceChain ''q'' ''beta'', NumericalRelevanceChain ''q'' ''beta'',
                  RelevanceChain ''q'' ''alpha'', NumericalRelevanceChain ''q'' ''alpha''],
                 Inr (?RS, ''kb_only''))"
    by code_simp
  have h4: "([(''c'', [], 9 / 10)] = [] \<longleftrightarrow>
               [(''d'', [], 5 / 10), (''c'', [], 9 / 10 :: real)] = []) \<and>
            max_score_of [5 / 10, 9 / 10] = max_score_of [9 / 10]"
    by (simp add: max_score_of_def)
  have h5: "[5 / 10, 9 / 10 :: real] \<noteq> []"
    by simp
  have h6: "mset ?J = mset ?K"
    by simp
  note w1 = strategy_selection_dependence[THEN conjunct1, rule_format, OF h1]
  note w2 = strategy_selection_dependence[THEN conjunct2, THEN conjunct1, rule_format, OF h2]
  note w3 = strategy_selection_dependence[THEN conjunct2, THEN conjunct2, THEN conjunct1,
              rule_format, OF h3]
  note w4 = strategy_selection_dependence[THEN conjunct2, THEN conjunct2, THEN conjunct2,
              THEN conjunct1, rule_format, OF h4]
  note w5 = strategy_selection_dependence[THEN conjunct2, THEN conjunct2, THEN conjunct2,
              THEN conjunct2, THEN conjunct1, rule_format, OF h5]
  note w6 = strategy_selection_dependence[THEN conjunct2, THEN conjunct2, THEN conjunct2,
              THEN conjunct2, THEN conjunct2, rule_format, OF h6]
  from w2 w1 w3 w4 w5 w6 show ?thesis
    by (intro conjI)
qed

end
